theory Spec2Isabelle
  imports Main "HOL-Library.Word"
begin

unbundle bit_operations_syntax

section \<open>Bytes, little-endian words and buffers\<close>

text \<open>
  The debugger of \<^verbatim>\<open>kdbg.c\<close> runs on little-endian ARM64.  Every C object it handles
  (\<^verbatim>\<open>arm_context_t\<close>, the \<^verbatim>\<open>uint64_t stack[128]\<close> window, the debug state) is a run of
  bytes that is copied to and from kernel memory with \<^verbatim>\<open>kmemcpy\<close> and reinterpreted by
  pointer casts, so objects are modelled as byte lists and fields as little-endian reads
  and writes at byte offsets.
\<close>

type_synonym byte = "8 word"
type_synonym u32 = "32 word"
type_synonym u64 = "64 word"

text \<open>The \<open>n\<close> low bytes of a value, least significant first.\<close>

fun le_bytes :: "nat \<Rightarrow> u64 \<Rightarrow> byte list" where
  "le_bytes 0 w = []"
| "le_bytes (Suc n) w = ucast w # le_bytes n (drop_bit 8 w)"

text \<open>The value of a run of bytes read as a little-endian integer.\<close>

fun le_word :: "byte list \<Rightarrow> u64" where
  "le_word [] = 0"
| "le_word (b # bs) = ucast b OR push_bit 8 (le_word bs)"

text \<open>Reading and writing a field of a local object at a byte offset.\<close>

definition get_bytes :: "byte list \<Rightarrow> nat \<Rightarrow> nat \<Rightarrow> byte list" where
  "get_bytes buf off n = take n (drop off buf)"

definition put_bytes :: "byte list \<Rightarrow> nat \<Rightarrow> byte list \<Rightarrow> byte list" where
  "put_bytes buf off bs = take off buf @ bs @ drop (off + length bs) buf"

definition get64 :: "byte list \<Rightarrow> nat \<Rightarrow> u64" where
  "get64 buf off = le_word (get_bytes buf off 8)"

definition set64 :: "byte list \<Rightarrow> nat \<Rightarrow> u64 \<Rightarrow> byte list" where
  "set64 buf off v = put_bytes buf off (le_bytes 8 v)"

definition get32 :: "byte list \<Rightarrow> nat \<Rightarrow> u32" where
  "get32 buf off = ucast (le_word (get_bytes buf off 4))"

definition set32 :: "byte list \<Rightarrow> nat \<Rightarrow> u32 \<Rightarrow> byte list" where
  "set32 buf off v = put_bytes buf off (le_bytes 4 (ucast v))"

section \<open>The layout of \<^verbatim>\<open>arm_context_t\<close>\<close>

text \<open>
  \<^verbatim>\<open>arm64_state.h\<close> is not part of the sources, so the layout of \<^verbatim>\<open>arm_context_t\<close>
  and the two flavor constants are parameters of the model: the size of the structure,
  the byte offsets of the fields \<^verbatim>\<open>kdbg.c\<close> touches, and the values of
  \<^verbatim>\<open>ARM_SAVED_STATE64\<close> and \<^verbatim>\<open>ARM_SAVED_STATE64_COUNT\<close>.
\<close>

record layout =
  ctx_size :: nat       \<comment> \<open>\<^verbatim>\<open>sizeof(arm_context_t)\<close>\<close>
  off_flavor :: nat     \<comment> \<open>\<^verbatim>\<open>offsetof(arm_context_t, ss.ash.flavor)\<close>\<close>
  off_x :: nat          \<comment> \<open>\<^verbatim>\<open>offsetof(arm_context_t, ss.ss_64.x[0])\<close>, 29 registers\<close>
  off_sp :: nat         \<comment> \<open>\<^verbatim>\<open>offsetof(arm_context_t, ss.ss_64.sp)\<close>\<close>
  off_pc :: nat         \<comment> \<open>\<^verbatim>\<open>offsetof(arm_context_t, ss.ss_64.pc)\<close>\<close>
  off_cpsr :: nat       \<comment> \<open>\<^verbatim>\<open>offsetof(arm_context_t, ss.ss_64.cpsr)\<close>\<close>
  ARM_SAVED_STATE64 :: u32
  ARM_SAVED_STATE64_COUNT :: u32

text \<open>
  A layout is well formed when the fields lie inside the structure in their declaration
  order (header, \<^verbatim>\<open>x[29]\<close>, \<^verbatim>\<open>sp\<close>, \<^verbatim>\<open>pc\<close>, \<^verbatim>\<open>cpsr\<close>) without overlapping, the
  structure holds the 40 words that \<^verbatim>\<open>handle_kernel_bp_hits\<close> dumps from it, and its
  size is one a 32-bit count can hold.
\<close>

definition wf_layout :: "layout \<Rightarrow> bool" where
  "wf_layout lay \<longleftrightarrow>
     off_flavor lay + 4 \<le> off_x lay \<and>
     off_x lay + 29 * 8 \<le> off_sp lay \<and>
     off_sp lay + 8 \<le> off_pc lay \<and>
     off_pc lay + 8 \<le> off_cpsr lay \<and>
     off_cpsr lay + 4 \<le> ctx_size lay \<and>
     40 * 8 \<le> ctx_size lay \<and>
     ctx_size lay < 2 ^ 32"

text \<open>A concrete well-formed layout, used in the examples.\<close>

definition example_layout :: layout where
  "example_layout = \<lparr> ctx_size = 848, off_flavor = 0, off_x = 8, off_sp = 256,
     off_pc = 264, off_cpsr = 272, ARM_SAVED_STATE64 = 0x15,
     ARM_SAVED_STATE64_COUNT = 72 \<rparr>"

text \<open>
  \<^verbatim>\<open>ARM_SAVED_STATE64 | (((uint64_t)ARM_SAVED_STATE64_COUNT) << 32)\<close>: the 64-bit word
  that starts every saved state.
\<close>

definition flavor_and_count_tag :: "layout \<Rightarrow> u64" where
  "flavor_and_count_tag lay =
     ucast (ARM_SAVED_STATE64 lay) OR push_bit 32 (ucast (ARM_SAVED_STATE64_COUNT lay))"

text \<open>Field accessors of an \<^verbatim>\<open>arm_context_t\<close> held in a local buffer.\<close>

definition ss_flavor :: "layout \<Rightarrow> byte list \<Rightarrow> u32" where
  "ss_flavor lay ctx = get32 ctx (off_flavor lay)"

definition ss64_x :: "layout \<Rightarrow> nat \<Rightarrow> byte list \<Rightarrow> u64" where
  "ss64_x lay i ctx = get64 ctx (off_x lay + 8 * i)"

definition ss64_sp :: "layout \<Rightarrow> byte list \<Rightarrow> u64" where
  "ss64_sp lay ctx = get64 ctx (off_sp lay)"

definition ss64_pc :: "layout \<Rightarrow> byte list \<Rightarrow> u64" where
  "ss64_pc lay ctx = get64 ctx (off_pc lay)"

definition ss64_cpsr :: "layout \<Rightarrow> byte list \<Rightarrow> u32" where
  "ss64_cpsr lay ctx = get32 ctx (off_cpsr lay)"

definition set_ss_flavor :: "layout \<Rightarrow> u32 \<Rightarrow> byte list \<Rightarrow> byte list" where
  "set_ss_flavor lay v ctx = set32 ctx (off_flavor lay) v"

definition set_ss64_x :: "layout \<Rightarrow> nat \<Rightarrow> u64 \<Rightarrow> byte list \<Rightarrow> byte list" where
  "set_ss64_x lay i v ctx = set64 ctx (off_x lay + 8 * i) v"

definition set_ss64_sp :: "layout \<Rightarrow> u64 \<Rightarrow> byte list \<Rightarrow> byte list" where
  "set_ss64_sp lay v ctx = set64 ctx (off_sp lay) v"

definition set_ss64_pc :: "layout \<Rightarrow> u64 \<Rightarrow> byte list \<Rightarrow> byte list" where
  "set_ss64_pc lay v ctx = set64 ctx (off_pc lay) v"

definition set_ss64_cpsr :: "layout \<Rightarrow> u32 \<Rightarrow> byte list \<Rightarrow> byte list" where
  "set_ss64_cpsr lay v ctx = set32 ctx (off_cpsr lay) v"

text \<open>\<^verbatim>\<open>arm_context_t c = {0};\<close>\<close>

definition zero_context :: "layout \<Rightarrow> byte list" where
  "zero_context lay = replicate (ctx_size lay) 0"

section \<open>\<^verbatim>\<open>handle_kernel_bp_hits\<close>: the scan of the copied stack window\<close>

text \<open>
  \<^verbatim>\<open>stack[i]\<close> for the local \<^verbatim>\<open>uint64_t stack[128]\<close>, held as its 1024 bytes.
\<close>

definition stack_word :: "byte list \<Rightarrow> nat \<Rightarrow> u64" where
  "stack_word stack i = get64 stack (8 * i)"

text \<open>
  \<^verbatim>\<open>((arm_context_t*)&stack[i])->ss.ss_64.pc\<close>.  The cast lays a whole context over the
  array from word \<open>i\<close> on, so for the last indices the \<^verbatim>\<open>pc\<close> field lies past the end
  of \<^verbatim>\<open>stack\<close>: the read then takes the bytes that follow the array in the monitor's own
  stack frame, which the model receives as \<open>beyond\<close>.
\<close>

definition frame_byte :: "byte list \<Rightarrow> (nat \<Rightarrow> byte) \<Rightarrow> nat \<Rightarrow> byte" where
  "frame_byte stack beyond k =
     (if k < length stack then stack ! k else beyond (k - length stack))"

definition saved_state_pc :: "layout \<Rightarrow> byte list \<Rightarrow> (nat \<Rightarrow> byte) \<Rightarrow> nat \<Rightarrow> u64" where
  "saved_state_pc lay stack beyond i =
     le_word (map (\<lambda>k. frame_byte stack beyond (8 * i + off_pc lay + k)) [0..<8])"

text \<open>
  The loop \<^verbatim>\<open>for (int i = 0; i < 128; i++)\<close> of lines 577-593.  The result is
  \<^verbatim>\<open>found_it\<close>, \<^verbatim>\<open>looper_saved_state\<close> (which keeps its initial 0 when nothing is found)
  and, as a ghost value, the number of loop iterations entered (the probes).
\<close>

function scan_stack_from ::
  "layout \<Rightarrow> (nat \<Rightarrow> byte) \<Rightarrow> u64 \<Rightarrow> u64 \<Rightarrow> byte list \<Rightarrow> nat \<Rightarrow> bool \<times> u64 \<times> nat" where
  "scan_stack_from lay beyond looper_pc sp stack i =
     (if i < 128 then
        if stack_word stack i \<noteq> flavor_and_count_tag lay
        then scan_stack_from lay beyond looper_pc sp stack (i + 1)
        else if saved_state_pc lay stack beyond i \<noteq> looper_pc
        then scan_stack_from lay beyond looper_pc sp stack (i + 1)
        else (True, sp + of_nat (i * 8), i + 1)
      else (False, 0, i))"
  by pat_completeness auto
termination
  by (relation "measure (\<lambda>(lay, beyond, looper_pc, sp, stack, i). 128 - i)") auto

declare scan_stack_from.simps [simp del]

definition scan_stack :: "layout \<Rightarrow> (nat \<Rightarrow> byte) \<Rightarrow> u64 \<Rightarrow> u64 \<Rightarrow> byte list \<Rightarrow> bool \<times> u64 \<times> nat" where
  "scan_stack lay beyond looper_pc sp stack = scan_stack_from lay beyond looper_pc sp stack 0"

text \<open>
  Word \<open>i\<close> of the window starts an outer (spin) snapshot, as the scanner decides it:
  the word is the tag and the \<^verbatim>\<open>pc\<close> decoded from there is the spin-loop address.
\<close>

definition spin_snapshot_at :: "layout \<Rightarrow> (nat \<Rightarrow> byte) \<Rightarrow> u64 \<Rightarrow> byte list \<Rightarrow> nat \<Rightarrow> bool" where
  "spin_snapshot_at lay beyond looper_pc stack i \<longleftrightarrow>
     stack_word stack i = flavor_and_count_tag lay \<and>
     saved_state_pc lay stack beyond i = looper_pc"

section \<open>Kernel memory, the process state and the trace of effects\<close>

text \<open>
  Modelled from the spec: \<^verbatim>\<open>kmem.h\<close> is not part of the sources.  Its contract is
  "\<open>read64/32(address) -> value\<close>, \<open>write64/32(address, value)\<close>,
  \<open>copy(dst, src, length)\<close> -- no alignment or bounds guarantees".  Kernel memory is a
  byte for every 64-bit address; a run of bytes starts at an address and continues
  upwards, wrapping around at the top of the address space.
\<close>

type_synonym kmemory = "u64 \<Rightarrow> byte"

definition kread :: "kmemory \<Rightarrow> u64 \<Rightarrow> nat \<Rightarrow> byte list" where
  "kread m a n = map (\<lambda>k. m (a + of_nat k)) [0..<n]"

definition kwrite :: "kmemory \<Rightarrow> u64 \<Rightarrow> byte list \<Rightarrow> kmemory" where
  "kwrite m a bs = (\<lambda>x. if unat (x - a) < length bs then bs ! unat (x - a) else m x)"

text \<open>What each \<^verbatim>\<open>printf\<close> of the modelled functions prints.\<close>

datatype log_msg =
    Msg_trying_to_pin u64
  | Msg_yielding_cpu
  | Msg_back_on_cpu
  | Msg_running_on u64
  | Msg_returned_from_KDE
  | Msg_kstackptr u64
  | Msg_sp u64
  | Msg_found_saved_state u64
  | Msg_unable_to_find_tick_state_trying_again
  | Msg_hex16 u64
  | Msg_unexpected_breakpoint u64
  | Msg_unable_to_find_bp_hitting_state
  | Msg_alrighty_pc u64
  | Msg_setting_bp_address_failed
  | Msg_thread_t_addr u64
  | Msg_bvr0_read u64
  | Msg_bcr0_read u32
  | Msg_set_MODE_CONTROL_ANY
  | Msg_started_monitor_thread
  | Msg_syscall_returned
  | Msg_monitor_exited
  | Msg_monitor_thread_running
  | Msg_monitor_thread_pinned

text \<open>The calls that leave the process, in the order they are made (newest first).\<close>

datatype kevent =
    Ev_rk64 u64
  | Ev_rk32 u64
  | Ev_wk64 u64 u64
  | Ev_wk32 u64 u32
  | Ev_kmemcpy_from_kernel u64 nat
  | Ev_kmemcpy_to_kernel u64 nat
  | Ev_printf log_msg
  | Ev_sleep nat
  | Ev_thread_switch u32
  | Ev_swtch_pri nat
  | Ev_kcall u64 "u64 list"
  | Ev_pthread_create
  | Ev_pthread_join

record dbg_state =
  kmem :: kmemory
  syscall_complete :: int     \<comment> \<open>\<^verbatim>\<open>volatile int syscall_complete\<close>\<close>
  kernel_leak :: u64          \<comment> \<open>\<^verbatim>\<open>extern uint64_t kernel_leak\<close>\<close>
  trace :: "kevent list"

definition emit :: "kevent \<Rightarrow> dbg_state \<Rightarrow> dbg_state" where
  "emit e s = s\<lparr>trace := e # trace s\<rparr>"

text \<open>
  Modelled from the spec: the read, write and copy primitives of \<^verbatim>\<open>kmem.h\<close> and the
  calls into the C library and the Mach traps (\<^verbatim>\<open>printf\<close>, \<^verbatim>\<open>sleep\<close>,
  \<^verbatim>\<open>thread_switch\<close>, \<^verbatim>\<open>swtch_pri\<close>).  Each leaves its event; the writes and the
  copy to the kernel change the memory and nothing else does.  Values are little-endian.
\<close>

text \<open>The 64-bit and the 32-bit value stored at an address.\<close>

definition peek64 :: "kmemory \<Rightarrow> u64 \<Rightarrow> u64" where
  "peek64 m addr = le_word (kread m addr 8)"

definition peek32 :: "kmemory \<Rightarrow> u64 \<Rightarrow> u32" where
  "peek32 m addr = ucast (le_word (kread m addr 4))"

definition rk64 :: "u64 \<Rightarrow> dbg_state \<Rightarrow> u64 \<times> dbg_state" where
  "rk64 addr s = (peek64 (kmem s) addr, emit (Ev_rk64 addr) s)"

definition rk32 :: "u64 \<Rightarrow> dbg_state \<Rightarrow> u32 \<times> dbg_state" where
  "rk32 addr s = (peek32 (kmem s) addr, emit (Ev_rk32 addr) s)"

definition wk64 :: "u64 \<Rightarrow> u64 \<Rightarrow> dbg_state \<Rightarrow> dbg_state" where
  "wk64 addr v s = emit (Ev_wk64 addr v) (s\<lparr>kmem := kwrite (kmem s) addr (le_bytes 8 v)\<rparr>)"

definition wk32 :: "u64 \<Rightarrow> u32 \<Rightarrow> dbg_state \<Rightarrow> dbg_state" where
  "wk32 addr v s =
     emit (Ev_wk32 addr v) (s\<lparr>kmem := kwrite (kmem s) addr (le_bytes 4 (ucast v))\<rparr>)"

text \<open>\<^verbatim>\<open>kmemcpy\<close> with a kernel source and a local destination, and the other way round.\<close>

definition kmemcpy_from_kernel :: "u64 \<Rightarrow> nat \<Rightarrow> dbg_state \<Rightarrow> byte list \<times> dbg_state" where
  "kmemcpy_from_kernel src n s = (kread (kmem s) src n, emit (Ev_kmemcpy_from_kernel src n) s)"

definition kmemcpy_to_kernel :: "u64 \<Rightarrow> byte list \<Rightarrow> dbg_state \<Rightarrow> dbg_state" where
  "kmemcpy_to_kernel dst buf s =
     emit (Ev_kmemcpy_to_kernel dst (length buf)) (s\<lparr>kmem := kwrite (kmem s) dst buf\<rparr>)"

definition printf :: "log_msg \<Rightarrow> dbg_state \<Rightarrow> dbg_state" where
  "printf msg s = emit (Ev_printf msg) s"

definition sleep :: "nat \<Rightarrow> dbg_state \<Rightarrow> dbg_state" where
  "sleep n s = emit (Ev_sleep n) s"

definition thread_switch :: "u32 \<Rightarrow> dbg_state \<Rightarrow> dbg_state" where
  "thread_switch port s = emit (Ev_thread_switch port) s"

definition swtch_pri :: "nat \<Rightarrow> dbg_state \<Rightarrow> dbg_state" where
  "swtch_pri pri s = emit (Ev_swtch_pri pri) s"

section \<open>The kernel build and the host interfaces\<close>

text \<open>
  \<^verbatim>\<open>symbols.h\<close>, \<^verbatim>\<open>kutils.h\<close>, \<^verbatim>\<open>find_port.h\<close>, \<^verbatim>\<open>early_kalloc.h\<close> and
  \<^verbatim>\<open>kcall.h\<close> are not part of the sources either.  What they resolve and do is specific
  to one kernel build, so it is a parameter of every function: the value of each symbol
  and structure offset, the thread and port addresses, the allocator, the arbitrary call,
  the host's debug-register calls, and the offsets inside the debug state.
\<close>

datatype ksymbol =
    KSYMBOL_CPU_DATA_ENTRIES
  | KSYMBOL_VALID_LINK_REGISTER
  | KSYMBOL_X21_JOP_GADGET
  | KSYMBOL_EXCEPTION_RETURN
  | KSYMBOL_THREAD_EXCEPTION_RETURN
  | KSYMBOL_SET_MDSCR_EL1_GADGET
  | KSYMBOL_SLEH_SYNC_EPILOG
  | KSYMBOL_EL1_HW_BP_INFINITE_LOOP
  | KSYMBOL_WRITE_SYSCALL_ENTRYPOINT

datatype kstruct_offset =
    KSTRUCT_OFFSET_CPU_DATA_CPU_PROCESSOR
  | KSTRUCT_OFFSET_THREAD_BOUND_PROCESSOR
  | KSTRUCT_OFFSET_THREAD_CHOSEN_PROCESSOR
  | KSTRUCT_OFFSET_THREAD_CONTEXT_DATA
  | KSTRUCT_OFFSET_THREAD_KSTACKPTR
  | KSTRUCT_OFFSET_IPC_PORT_IP_KOBJECT

text \<open>\<^verbatim>\<open>struct arm64_debug_state\<close>, of which only element 0 of each array is used.\<close>

record arm64_debug_state =
  bvr :: "nat \<Rightarrow> u64"
  bcr :: "nat \<Rightarrow> u64"
  wvr :: "nat \<Rightarrow> u64"
  wcr :: "nat \<Rightarrow> u64"
  mdscr_el1 :: u64

record kenv =
  ksym :: "ksymbol \<Rightarrow> u64"
  koffset :: "kstruct_offset \<Rightarrow> u64"
  current_thread :: u64
  mach_thread_self :: u32
  find_port_address :: "u32 \<Rightarrow> u64"
  early_kalloc :: "nat \<Rightarrow> dbg_state \<Rightarrow> u64 \<times> dbg_state"
  kcall :: "u64 \<Rightarrow> u64 list \<Rightarrow> dbg_state \<Rightarrow> dbg_state"
  thread_set_state :: "u32 \<Rightarrow> arm64_debug_state \<Rightarrow> dbg_state \<Rightarrow> u32 \<times> dbg_state"
  thread_get_state :: "u32 \<Rightarrow> dbg_state \<Rightarrow> (u32 \<times> arm64_debug_state) \<times> dbg_state"
  ACT_DEBUGDATA_OFFSET :: u64
  off_ds64_bvr0 :: nat   \<comment> \<open>\<^verbatim>\<open>offsetof(struct arm_debug_aggregate_state, ds64.bvr[0])\<close>\<close>
  off_ds64_bcr0 :: nat   \<comment> \<open>\<^verbatim>\<open>offsetof(struct arm_debug_aggregate_state, ds64.bcr[0])\<close>\<close>

section \<open>\<^verbatim>\<open>pin_current_thread\<close>\<close>

definition pin_current_thread :: "kenv \<Rightarrow> dbg_state \<Rightarrow> u64 \<times> dbg_state" where
  "pin_current_thread env s =
     (let th = current_thread env;
          cpu_data_entries = ksym env KSYMBOL_CPU_DATA_ENTRIES;
          cpu_id = (0 :: u64);
          (cpu_data, s) = rk64 (cpu_data_entries + ((cpu_id * 0x10) + 8)) s;
          (processor, s) =
             rk64 (cpu_data + koffset env KSTRUCT_OFFSET_CPU_DATA_CPU_PROCESSOR) s;
          s = printf (Msg_trying_to_pin processor) s;
          s = wk64 (th + koffset env KSTRUCT_OFFSET_THREAD_BOUND_PROCESSOR) processor s;
          s = printf Msg_yielding_cpu s;
          s = swtch_pri 0 s;
          s = printf Msg_back_on_cpu s;
          (chosen, s) = rk64 (th + koffset env KSTRUCT_OFFSET_THREAD_CHOSEN_PROCESSOR) s;
          s = printf (Msg_running_on chosen) s
      in (processor, s))"

section \<open>\<^verbatim>\<open>do_syscall_with_pstate_d_unmasked\<close> and \<^verbatim>\<open>set_MDSCR_EL1_KDE\<close>\<close>

text \<open>\<^verbatim>\<open>struct syscall_args { uint32_t number; uint64_t arg[8]; }\<close>\<close>

record syscall_args =
  number :: u32
  arg :: "u64 list"

definition ESR_EC_SVC_64 :: u64 where "ESR_EC_SVC_64 = 0x15"
definition ESR_EC_SHIFT :: nat where "ESR_EC_SHIFT = 26"
definition SPSR_A :: u32 where "SPSR_A = push_bit 8 1"
definition SPSR_I :: u32 where "SPSR_I = push_bit 7 1"
definition SPSR_F :: u32 where "SPSR_F = push_bit 6 1"
definition SPSR_EL1_SP0 :: u32 where "SPSR_EL1_SP0 = 0x4"
definition MDSCR_EL1_KDE :: u64 where "MDSCR_EL1_KDE = push_bit 13 1"

text \<open>
  Both functions return nothing; the model returns, beside the state, the local
  snapshots they built and the kernel addresses they copied them to.
\<close>

record syscall_frame =
  fake_syscall_args :: "byte list"
  fake_syscall_args_kern :: u64
  eret_return_state :: "byte list"
  eret_return_state_kern :: u64

definition do_syscall_with_pstate_d_unmasked ::
  "kenv \<Rightarrow> layout \<Rightarrow> syscall_args \<Rightarrow> dbg_state \<Rightarrow> syscall_frame \<times> dbg_state" where
  "do_syscall_with_pstate_d_unmasked env lay args s =
     (let thread_t_addr = current_thread env;
          fake = zero_context lay;
          eret = zero_context lay;
          fake = set_ss64_x lay 16 (ucast (number args)) fake;
          fake = set_ss64_x lay 0 (arg args ! 0) fake;
          fake = set_ss64_x lay 1 (arg args ! 1) fake;
          fake = set_ss64_x lay 2 (arg args ! 2) fake;
          fake = set_ss64_x lay 3 (arg args ! 3) fake;
          fake = set_ss64_x lay 4 (arg args ! 4) fake;
          fake = set_ss64_x lay 5 (arg args ! 5) fake;
          fake = set_ss64_x lay 6 (arg args ! 6) fake;
          fake = set_ss64_x lay 7 (arg args ! 7) fake;
          fake = set_ss_flavor lay (ARM_SAVED_STATE64 lay) fake;
          fake = set_ss64_cpsr lay 0 fake;
          (fake_kern, s) = early_kalloc env (ctx_size lay) s;
          s = kmemcpy_to_kernel fake_kern fake s;
          eret = set_ss64_x lay 0 fake_kern eret;
          eret = set_ss64_x lay 1 (push_bit ESR_EC_SHIFT ESR_EC_SVC_64) eret;
          eret = set_ss64_x lay 2 0x454545454540 eret;
          (act_context, s) =
             rk64 (thread_t_addr + koffset env KSTRUCT_OFFSET_THREAD_CONTEXT_DATA) s;
          eret = set_ss64_x lay 21 act_context eret;
          (thread_kernel_stack_top, s) =
             rk64 (thread_t_addr + koffset env KSTRUCT_OFFSET_THREAD_KSTACKPTR) s;
          eret = set_ss64_sp lay thread_kernel_stack_top eret;
          eret = set_ss64_pc lay (ksym env KSYMBOL_VALID_LINK_REGISTER) eret;
          eret = set_ss64_cpsr lay (SPSR_A OR SPSR_I OR SPSR_F OR SPSR_EL1_SP0) eret;
          (eret_kern, s) = early_kalloc env (ctx_size lay) s;
          s = kmemcpy_to_kernel eret_kern eret s;
          s = kcall env (ksym env KSYMBOL_X21_JOP_GADGET)
                [eret_kern, ksym env KSYMBOL_EXCEPTION_RETURN] s
      in (\<lparr> fake_syscall_args = fake, fake_syscall_args_kern = fake_kern,
            eret_return_state = eret, eret_return_state_kern = eret_kern \<rparr>, s))"

text \<open>
  \<^verbatim>\<open>set_MDSCR_EL1_KDE\<close> builds no entry snapshot: the first two fields of the frame it
  returns are empty.  \<^verbatim>\<open>popped_regs\<close> is the six-word ROP stack.
\<close>

definition set_MDSCR_EL1_KDE ::
  "kenv \<Rightarrow> layout \<Rightarrow> u32 \<Rightarrow> dbg_state \<Rightarrow> syscall_frame \<times> dbg_state" where
  "set_MDSCR_EL1_KDE env lay target_thread_port s =
     (let eret = zero_context lay;
          (rop_stack_kern_base, s) = early_kalloc env 0x1000 s;
          rop_stack_kern_middle = rop_stack_kern_base + 0xc00;
          eret = set_ss64_sp lay rop_stack_kern_middle eret;
          rop_stack_kern_popped_base = rop_stack_kern_middle + 0x220;
          popped_regs = [0, 0, 0, 0, 0x414243444546,
                         ksym env KSYMBOL_THREAD_EXCEPTION_RETURN];
          s = kmemcpy_to_kernel rop_stack_kern_popped_base
                (concat (map (le_bytes 8) popped_regs)) s;
          eret = set_ss64_x lay 8 MDSCR_EL1_KDE eret;
          eret = set_ss64_pc lay (ksym env KSYMBOL_SET_MDSCR_EL1_GADGET) eret;
          eret = set_ss64_cpsr lay (SPSR_A OR SPSR_I OR SPSR_F OR SPSR_EL1_SP0) eret;
          (eret_kern, s) = early_kalloc env (ctx_size lay) s;
          s = kmemcpy_to_kernel eret_kern eret s;
          s = kcall env (ksym env KSYMBOL_X21_JOP_GADGET)
                [eret_kern, ksym env KSYMBOL_EXCEPTION_RETURN] s;
          s = printf Msg_returned_from_KDE s
      in (\<lparr> fake_syscall_args = [], fake_syscall_args_kern = 0,
            eret_return_state = eret, eret_return_state_kern = eret_kern \<rparr>, s))"

section \<open>\<^verbatim>\<open>handle_kernel_bp_hits\<close>: the monitor\<close>

text \<open>
  The arguments of \<^verbatim>\<open>handle_kernel_bp_hits\<close>.  The callback receives the local copy of
  the trap context and may use the kernel read/write primitives itself, so it maps a
  context and a state to the modified context and state.  \<open>frame_after_stack\<close> is not
  an argument of the C function: it is the content of the monitor's stack frame behind
  the local array \<^verbatim>\<open>stack\<close> (see \<open>saved_state_pc\<close>).
\<close>

record bp_hits_args =
  target_thread_port :: u32
  looper_pc :: u64
  breakpoint :: u64
  callback :: "byte list \<Rightarrow> dbg_state \<Rightarrow> byte list \<times> dbg_state"
  frame_after_stack :: "nat \<Rightarrow> byte"

text \<open>
  One pass through the body of the inner loop \<^verbatim>\<open>while (!found_it)\<close> (lines 528-601).
  It ends in \<^verbatim>\<open>return\<close>, in \<^verbatim>\<open>continue\<close>, or with \<^verbatim>\<open>found_it\<close> set and the address of
  the outer snapshot.
\<close>

datatype poll_result = Poll_return | Poll_continue | Poll_found u64

definition wait_spin_poll ::
  "kenv \<Rightarrow> layout \<Rightarrow> bp_hits_args \<Rightarrow> u64 \<Rightarrow> dbg_state \<Rightarrow> poll_result \<times> dbg_state" where
  "wait_spin_poll env lay a thread_t_addr s =
     (if syscall_complete s \<noteq> 0 then (Poll_return, s)
      else
        let (kstackptr, s) =
               rk64 (thread_t_addr + koffset env KSTRUCT_OFFSET_THREAD_KSTACKPTR) s;
            s = printf (Msg_kstackptr kstackptr) s;
            (saved_ksched_state, s) = kmemcpy_from_kernel kstackptr (ctx_size lay) s;
            sp = ss64_sp lay saved_ksched_state;
            s = printf (Msg_sp sp) s
        in if sp = 0 then (Poll_continue, s)
           else
             let (stack, s) = kmemcpy_from_kernel sp (128 * 8) s;
                 (found_it, looper_saved_state, probes) =
                    scan_stack lay (frame_after_stack a) (looper_pc a) sp stack
             in if found_it
                then (Poll_found looper_saved_state,
                      printf (Msg_found_saved_state looper_saved_state) s)
                else (Poll_return,
                      sleep 1 (printf Msg_unable_to_find_tick_state_trying_again s)))"

text \<open>
  Lines 615-629, the body of the loop below once the tag is read: the context is copied,
  its first 40 words are printed, and a \<^verbatim>\<open>pc\<close> that is not the breakpoint is
  reported.
\<close>

definition inspect_bp_context :: "layout \<Rightarrow> u64 \<Rightarrow> u64 \<Rightarrow> dbg_state \<Rightarrow> dbg_state" where
  "inspect_bp_context lay bp bp_hitting_state s =
     (let (bp_context, s) = kmemcpy_from_kernel bp_hitting_state (ctx_size lay) s;
          s = fold (\<lambda>k. printf (Msg_hex16 (get64 bp_context (8 * k)))) [0..<40] s;
          s = (if ss64_pc lay bp_context \<noteq> bp
               then printf (Msg_unexpected_breakpoint (ss64_pc lay bp_context)) s
               else s)
      in s)"

text \<open>
  The loop \<^verbatim>\<open>for (int i = 0; i < 1000; i++)\<close> of lines 608-630, which walks
  \<^verbatim>\<open>bp_hitting_state\<close> up the kernel stack.  The result is \<^verbatim>\<open>found_it\<close> and the final
  \<^verbatim>\<open>bp_hitting_state\<close>.
\<close>

function locate_trap_from ::
  "layout \<Rightarrow> u64 \<Rightarrow> nat \<Rightarrow> u64 \<Rightarrow> dbg_state \<Rightarrow> (bool \<times> u64) \<times> dbg_state" where
  "locate_trap_from lay bp i bp_hitting_state s =
     (if i < 1000 then
        if fst (rk64 bp_hitting_state s) \<noteq> flavor_and_count_tag lay
        then locate_trap_from lay bp (i + 1) (bp_hitting_state + 8)
               (snd (rk64 bp_hitting_state s))
        else ((True, bp_hitting_state),
              inspect_bp_context lay bp bp_hitting_state (snd (rk64 bp_hitting_state s)))
      else ((False, bp_hitting_state), s))"
  by pat_completeness auto
termination
  by (relation "measure (\<lambda>(lay, bp, i, bp_hitting_state, s). 1000 - i)") auto

declare locate_trap_from.simps [simp del]

text \<open>Lines 605-634: the start address, the loop, and the message when it found nothing.\<close>

definition locate_trap ::
  "layout \<Rightarrow> u64 \<Rightarrow> u64 \<Rightarrow> dbg_state \<Rightarrow> (bool \<times> u64) \<times> dbg_state" where
  "locate_trap lay bp looper_saved_state s =
     (let bp_hitting_state = looper_saved_state + of_nat (ctx_size lay);
          ((found_it, bp_hitting_state), s) = locate_trap_from lay bp 0 bp_hitting_state s;
          s = (if \<not> found_it then printf Msg_unable_to_find_bp_hitting_state s else s)
      in ((found_it, bp_hitting_state), s))"

text \<open>Lines 638-642: the copy of the trap context that the callback is given.\<close>

definition copy_bp_context :: "layout \<Rightarrow> u64 \<Rightarrow> dbg_state \<Rightarrow> byte list \<times> dbg_state" where
  "copy_bp_context lay bp_hitting_state s =
     (let (bp_context, s) = kmemcpy_from_kernel bp_hitting_state (ctx_size lay) s;
          s = printf (Msg_alrighty_pc (ss64_pc lay bp_context)) s;
          s = s\<lparr>kernel_leak := ss64_pc lay bp_context\<rparr>
      in (bp_context, s))"

text \<open>Lines 646-655: the write back, the patch of the outer \<^verbatim>\<open>pc\<close>, and the two yields.\<close>

definition patch_and_resume ::
  "kenv \<Rightarrow> layout \<Rightarrow> bp_hits_args \<Rightarrow> u64 \<Rightarrow> u64 \<Rightarrow> byte list \<Rightarrow> dbg_state \<Rightarrow> dbg_state" where
  "patch_and_resume env lay a looper_saved_state bp_hitting_state bp_context s =
     (let s = kmemcpy_to_kernel bp_hitting_state bp_context s;
          s = wk64 (looper_saved_state + of_nat (off_pc lay))
                (ksym env KSYMBOL_SLEH_SYNC_EPILOG) s;
          s = thread_switch (target_thread_port a) s;
          s = swtch_pri 0 s
      in s)"

text \<open>Lines 636-655.\<close>

definition dispatch_and_patch ::
  "kenv \<Rightarrow> layout \<Rightarrow> bp_hits_args \<Rightarrow> u64 \<Rightarrow> u64 \<Rightarrow> dbg_state \<Rightarrow> dbg_state" where
  "dispatch_and_patch env lay a looper_saved_state bp_hitting_state s =
     (let (bp_context, s) = copy_bp_context lay bp_hitting_state s;
          (bp_context, s) = callback a bp_context s
      in patch_and_resume env lay a looper_saved_state bp_hitting_state bp_context s)"

text \<open>Lines 605-655: what one pass of the outer loop does once the outer snapshot is found.\<close>

definition handle_bp_hit ::
  "kenv \<Rightarrow> layout \<Rightarrow> bp_hits_args \<Rightarrow> u64 \<Rightarrow> dbg_state \<Rightarrow> dbg_state" where
  "handle_bp_hit env lay a looper_saved_state s =
     (let ((found_it, bp_hitting_state), s) = locate_trap lay (breakpoint a) looper_saved_state s
      in dispatch_and_patch env lay a looper_saved_state bp_hitting_state s)"

text \<open>
  The two nested loops \<^verbatim>\<open>while (1) { while (!found_it) { ... } ... }\<close>.  Both are
  unbounded, and what the monitor reads is changed by the threads it watches.  The list
  \<open>others\<close> holds what the rest of the system did to the state before each poll (among
  it, setting \<^verbatim>\<open>syscall_complete\<close>); its length bounds the number of polls.  The result is
  \<open>None\<close> when the monitor is still polling after the last of them, and the state at the
  \<^verbatim>\<open>return\<close> otherwise.
\<close>

fun handle_kernel_bp_hits_loop ::
  "kenv \<Rightarrow> layout \<Rightarrow> bp_hits_args \<Rightarrow> u64 \<Rightarrow> (dbg_state \<Rightarrow> dbg_state) list \<Rightarrow> dbg_state
     \<Rightarrow> dbg_state option" where
  "handle_kernel_bp_hits_loop env lay a thread_t_addr [] s = None"
| "handle_kernel_bp_hits_loop env lay a thread_t_addr (other # others) s =
     (case wait_spin_poll env lay a thread_t_addr (other s) of
        (Poll_return, s') \<Rightarrow> Some s'
      | (Poll_continue, s') \<Rightarrow> handle_kernel_bp_hits_loop env lay a thread_t_addr others s'
      | (Poll_found looper_saved_state, s') \<Rightarrow>
          handle_kernel_bp_hits_loop env lay a thread_t_addr others
            (handle_bp_hit env lay a looper_saved_state s'))"

definition handle_kernel_bp_hits ::
  "kenv \<Rightarrow> layout \<Rightarrow> bp_hits_args \<Rightarrow> (dbg_state \<Rightarrow> dbg_state) list \<Rightarrow> dbg_state
     \<Rightarrow> dbg_state option" where
  "handle_kernel_bp_hits env lay a others s =
     (let thread_port_addr = find_port_address env (target_thread_port a);
          (thread_t_addr, s) =
             rk64 (thread_port_addr + koffset env KSTRUCT_OFFSET_IPC_PORT_IP_KOBJECT) s
      in handle_kernel_bp_hits_loop env lay a thread_t_addr others s)"

text \<open>
  \<^verbatim>\<open>monitor_thread\<close>: the monitor pins itself to the core and watches for the spin
  loop of the kernel's breakpoint handler.  \<^verbatim>\<open>struct monitor_args\<close> carries the first
  three fields below.
\<close>

record monitor_args =
  margs_target_thread_port :: u32
  margs_breakpoint :: u64
  margs_callback :: "byte list \<Rightarrow> dbg_state \<Rightarrow> byte list \<times> dbg_state"
  margs_frame_after_stack :: "nat \<Rightarrow> byte"

definition monitor_thread ::
  "kenv \<Rightarrow> layout \<Rightarrow> monitor_args \<Rightarrow> (dbg_state \<Rightarrow> dbg_state) list \<Rightarrow> dbg_state
     \<Rightarrow> dbg_state option" where
  "monitor_thread env lay args others s =
     (let s = printf Msg_monitor_thread_running s;
          (processor, s) = pin_current_thread env s;
          s = printf Msg_monitor_thread_pinned s
      in handle_kernel_bp_hits env lay
           \<lparr> target_thread_port = margs_target_thread_port args,
             looper_pc = ksym env KSYMBOL_EL1_HW_BP_INFINITE_LOOP,
             breakpoint = margs_breakpoint args,
             callback = margs_callback args,
             frame_after_stack = margs_frame_after_stack args \<rparr> others s)"

text \<open>
  \<^verbatim>\<open>sys_write_breakpoint_handler\<close>, the callback of \<^verbatim>\<open>test_kdbg\<close>.  \<open>replacer_string\<close>
  is the address \<^verbatim>\<open>strdup\<close> returned; the string has 20 characters.
\<close>

definition sys_write_breakpoint_handler ::
  "layout \<Rightarrow> u64 \<Rightarrow> byte list \<Rightarrow> dbg_state \<Rightarrow> byte list \<times> dbg_state" where
  "sys_write_breakpoint_handler lay replacer_string state s =
     (let state = set_ss64_pc lay (ss64_pc lay state + 4) state;
          (val, s) = rk64 (ss64_x lay 8 state + 0x388) s;
          state = set_ss64_x lay 8 val state;
          uap = ss64_x lay 1 state;
          s = wk64 (uap + 8) replacer_string s;
          s = wk64 (uap + 0x10) 20 s
      in (state, s))"

section \<open>\<^verbatim>\<open>run_syscall_with_breakpoint\<close> and \<^verbatim>\<open>raw_syscall\<close>\<close>

definition BCR_BAS_ALL :: u64 where "BCR_BAS_ALL = push_bit 5 0xf"
definition BCR_E :: u64 where "BCR_E = push_bit 0 1"
definition ARM_DBG_CR_MODE_CONTROL_ANY :: u32 where "ARM_DBG_CR_MODE_CONTROL_ANY = push_bit 1 3"

definition zero_debug_state :: arm64_debug_state where
  "zero_debug_state =
     \<lparr> bvr = (\<lambda>_. 0), bcr = (\<lambda>_. 0), wvr = (\<lambda>_. 0), wcr = (\<lambda>_. 0), mdscr_el1 = 0 \<rparr>"

text \<open>
  Lines 691-714: the breakpoint is requested through the host's \<^verbatim>\<open>thread_set_state\<close> and
  read back with \<^verbatim>\<open>thread_get_state\<close>; a mismatch is printed and nothing else.
\<close>

definition request_breakpoint :: "kenv \<Rightarrow> u64 \<Rightarrow> dbg_state \<Rightarrow> dbg_state" where
  "request_breakpoint env bp_address s =
     (let state = zero_debug_state;
          state = state\<lparr>bvr := (bvr state)(0 := bp_address)\<rparr>;
          state = state\<lparr>bcr := (bcr state)(0 := BCR_BAS_ALL OR BCR_E)\<rparr>;
          (err, s) = thread_set_state env (mach_thread_self env) state s;
          ((err, state), s) = thread_get_state env (mach_thread_self env) s;
          s = (if bvr state 0 \<noteq> bp_address then printf Msg_setting_bp_address_failed s else s)
      in s)"

text \<open>
  Lines 717-740: the thread's \<^verbatim>\<open>DebugData\<close> is found through the thread port and
  \<^verbatim>\<open>ARM_DBG_CR_MODE_CONTROL_ANY\<close> is set in the stored \<^verbatim>\<open>bcr[0]\<close>.  The result carries the
  address of the \<^verbatim>\<open>DebugData\<close> and the value of \<^verbatim>\<open>bcr0\<close> as it was read.
\<close>

definition force_mode_control_any :: "kenv \<Rightarrow> dbg_state \<Rightarrow> (u64 \<times> u32) \<times> dbg_state" where
  "force_mode_control_any env s =
     (let thread_port_addr = find_port_address env (mach_thread_self env);
          (thread_t_addr, s) =
             rk64 (thread_port_addr + koffset env KSTRUCT_OFFSET_IPC_PORT_IP_KOBJECT) s;
          s = printf (Msg_thread_t_addr thread_t_addr) s;
          (DebugData, s) = rk64 (thread_t_addr + ACT_DEBUGDATA_OFFSET env) s;
          (bvr0, s) = rk64 (DebugData + of_nat (off_ds64_bvr0 env)) s;
          s = printf (Msg_bvr0_read bvr0) s;
          (bcr0_read, s) = rk32 (DebugData + of_nat (off_ds64_bcr0 env)) s;
          s = printf (Msg_bcr0_read bcr0_read) s;
          bcr0 = bcr0_read OR ARM_DBG_CR_MODE_CONTROL_ANY;
          s = wk32 (DebugData + of_nat (off_ds64_bcr0 env)) bcr0 s;
          s = printf Msg_set_MODE_CONTROL_ANY s
      in ((DebugData, bcr0_read), s))"

definition arm_breakpoint :: "kenv \<Rightarrow> u64 \<Rightarrow> dbg_state \<Rightarrow> (u64 \<times> u32) \<times> dbg_state" where
  "arm_breakpoint env bp_address s = force_mode_control_any env (request_breakpoint env bp_address s)"

text \<open>
  The loop \<^verbatim>\<open>for (int i = 0; i < n_args; i++) sargs.arg[i] = va_arg(ap, uint64_t)\<close> of
  both functions.  \<open>ap\<close> gives the 64-bit slots of the variable argument list in order.
  A store outside the eight elements of \<^verbatim>\<open>sargs.arg\<close> is a fault of the model.
\<close>

datatype c_fault = Array_index_out_of_bounds nat

text \<open>
  The slots of a variable argument list: the values the caller passed, followed by
  whatever its frame holds after them.
\<close>

definition va_slots :: "u64 list \<Rightarrow> (nat \<Rightarrow> u64) \<Rightarrow> nat \<Rightarrow> u64" where
  "va_slots passed after i = (if i < length passed then passed ! i else after (i - length passed))"

function marshal_args_from ::
  "(nat \<Rightarrow> u64) \<Rightarrow> u32 \<Rightarrow> nat \<Rightarrow> syscall_args \<Rightarrow> c_fault + syscall_args" where
  "marshal_args_from ap n_args i sargs =
     (if i < unat n_args then
        if i < length (arg sargs)
        then marshal_args_from ap n_args (i + 1) (sargs\<lparr>arg := (arg sargs)[i := ap i]\<rparr>)
        else Inl (Array_index_out_of_bounds i)
      else Inr sargs)"
  by pat_completeness auto
termination
  by (relation "measure (\<lambda>(ap, n_args, i, sargs). unat n_args - i)") auto

declare marshal_args_from.simps [simp del]

text \<open>
  \<^verbatim>\<open>struct syscall_args sargs = {0}; sargs.number = syscall_number;\<close> and the loop.
\<close>

definition marshal_args :: "u32 \<Rightarrow> u32 \<Rightarrow> (nat \<Rightarrow> u64) \<Rightarrow> c_fault + syscall_args" where
  "marshal_args syscall_number n_args ap =
     (let sargs = \<lparr> number = 0, arg = replicate 8 0 \<rparr>;
          sargs = sargs\<lparr>number := syscall_number\<rparr>
      in marshal_args_from ap n_args 0 sargs)"

text \<open>Lines 764-768 and 805-809: the call itself, between the two stores to the flag.\<close>

definition run_syscall :: "kenv \<Rightarrow> layout \<Rightarrow> syscall_args \<Rightarrow> dbg_state \<Rightarrow> dbg_state" where
  "run_syscall env lay sargs s =
     (let s = s\<lparr>syscall_complete := 0\<rparr>;
          (frame, s) = do_syscall_with_pstate_d_unmasked env lay sargs s;
          s = s\<lparr>syscall_complete := 1\<rparr>;
          s = printf Msg_syscall_returned s
      in s)"

text \<open>
  The monitor thread that \<^verbatim>\<open>run_syscall_with_breakpoint\<close> starts runs concurrently; of it
  the function below keeps the \<^verbatim>\<open>pthread_create\<close> and \<^verbatim>\<open>pthread_join\<close> calls only, so
  the callback, which is only passed on to that thread, is no argument here.  The result
  is the request that was handed to \<^verbatim>\<open>do_syscall_with_pstate_d_unmasked\<close> and the final
  state.
\<close>

definition run_syscall_with_breakpoint ::
  "kenv \<Rightarrow> layout \<Rightarrow> u64 \<Rightarrow> u32 \<Rightarrow> u32 \<Rightarrow> (nat \<Rightarrow> u64) \<Rightarrow> dbg_state
     \<Rightarrow> c_fault + (syscall_args \<times> dbg_state)" where
  "run_syscall_with_breakpoint env lay bp_address syscall_number n_args ap s =
     (let (processor, s) = pin_current_thread env s;
          (frame, s) = set_MDSCR_EL1_KDE env lay (mach_thread_self env) s;
          (armed, s) = arm_breakpoint env bp_address s;
          s = emit Ev_pthread_create s;
          s = printf Msg_started_monitor_thread s
      in case marshal_args syscall_number n_args ap of
           Inl fault \<Rightarrow> Inl fault
         | Inr sargs \<Rightarrow>
             (let s = run_syscall env lay sargs s;
                  s = emit Ev_pthread_join s;
                  s = printf Msg_monitor_exited s
              in Inr (sargs, s)))"

definition raw_syscall ::
  "kenv \<Rightarrow> layout \<Rightarrow> u32 \<Rightarrow> u32 \<Rightarrow> (nat \<Rightarrow> u64) \<Rightarrow> dbg_state
     \<Rightarrow> c_fault + (syscall_args \<times> dbg_state)" where
  "raw_syscall env lay syscall_number n_args ap s =
     (let (processor, s) = pin_current_thread env s
      in case marshal_args syscall_number n_args ap of
           Inl fault \<Rightarrow> Inl fault
         | Inr sargs \<Rightarrow> Inr (sargs, run_syscall env lay sargs s))"

text \<open>
  \<^verbatim>\<open>test_kdbg\<close>: \<^verbatim>\<open>write(1, hello_wrld_str, 11)\<close> with a breakpoint on the entry point
  of the system call.  \<open>hello_wrld_str\<close> is the address of the string and
  \<open>after\<close> what follows the three arguments in the caller's frame.
\<close>

definition test_kdbg ::
  "kenv \<Rightarrow> layout \<Rightarrow> u64 \<Rightarrow> (nat \<Rightarrow> u64) \<Rightarrow> dbg_state
     \<Rightarrow> c_fault + (syscall_args \<times> dbg_state)" where
  "test_kdbg env lay hello_wrld_str after s =
     run_syscall_with_breakpoint env lay (ksym env KSYMBOL_WRITE_SYSCALL_ENTRYPOINT)
       4 3 (va_slots [1, hello_wrld_str, 11] after) s"

text \<open>
  The state after \<open>n\<close> reads of consecutive 64-bit words from \<open>start\<close> on (the
  probes of the loop above): the reads leave their events and change nothing else.
\<close>

definition probed :: "u64 \<Rightarrow> nat \<Rightarrow> dbg_state \<Rightarrow> dbg_state" where
  "probed start n s = fold (\<lambda>j. emit (Ev_rk64 (start + 8 * of_nat j))) [0..<n] s"

text \<open>A buffer that holds an \<^verbatim>\<open>arm_context_t\<close> of a well-formed layout.\<close>

definition is_context :: "layout \<Rightarrow> byte list \<Rightarrow> bool" where
  "is_context lay ctx \<longleftrightarrow> wf_layout lay \<and> length ctx = ctx_size lay"

section \<open>A concrete kernel build and machine state for the examples\<close>


fun example_ksym :: "ksymbol \<Rightarrow> u64" where
  "example_ksym KSYMBOL_CPU_DATA_ENTRIES = 0xfffffff007606000"
| "example_ksym KSYMBOL_VALID_LINK_REGISTER = 0xfffffff0070cc1d4"
| "example_ksym KSYMBOL_X21_JOP_GADGET = 0xfffffff0070cc1ac"
| "example_ksym KSYMBOL_EXCEPTION_RETURN = 0xfffffff0070cc3cc"
| "example_ksym KSYMBOL_THREAD_EXCEPTION_RETURN = 0xfffffff0070cc384"
| "example_ksym KSYMBOL_SET_MDSCR_EL1_GADGET = 0xfffffff0071e1998"
| "example_ksym KSYMBOL_SLEH_SYNC_EPILOG = 0xfffffff0071de074"
| "example_ksym KSYMBOL_EL1_HW_BP_INFINITE_LOOP = 0xfffffff0071a0000"
| "example_ksym KSYMBOL_WRITE_SYSCALL_ENTRYPOINT = 0xfffffff007430000"

fun example_koffset :: "kstruct_offset \<Rightarrow> u64" where
  "example_koffset KSTRUCT_OFFSET_CPU_DATA_CPU_PROCESSOR = 0x218"
| "example_koffset KSTRUCT_OFFSET_THREAD_BOUND_PROCESSOR = 0x1a0"
| "example_koffset KSTRUCT_OFFSET_THREAD_CHOSEN_PROCESSOR = 0x198"
| "example_koffset KSTRUCT_OFFSET_THREAD_CONTEXT_DATA = 0x448"
| "example_koffset KSTRUCT_OFFSET_THREAD_KSTACKPTR = 0x450"
| "example_koffset KSTRUCT_OFFSET_IPC_PORT_IP_KOBJECT = 0x68"

text \<open>
  The example's host: an allocator that hands out a fresh page for every event so far,
  a call primitive that only leaves its event, and debug-register calls that store and
  load element 0 of the value and control registers in the thread's debug data.
\<close>

definition example_env :: kenv where
  "example_env =
     \<lparr> ksym = example_ksym,
       koffset = example_koffset,
       current_thread = 0xffffffe000200000,
       mach_thread_self = 0x1003,
       find_port_address = (\<lambda>_. 0xffffffe000300000),
       early_kalloc = (\<lambda>n s. (0xffffffe000600000 + 0x1000 * of_nat (length (trace s)), s)),
       kcall = (\<lambda>fp args s. emit (Ev_kcall fp args) s),
       thread_set_state = (\<lambda>port st s.
          (0, s\<lparr>kmem := kwrite (kwrite (kmem s) 0xffffffe000500008 (le_bytes 8 (bvr st 0)))
                            0xffffffe000500088 (le_bytes 8 (bcr st 0))\<rparr>)),
       thread_get_state = (\<lambda>port s.
          ((0, zero_debug_state\<lparr>bvr := (\<lambda>_. 0)(0 := peek64 (kmem s) 0xffffffe000500008),
                                 bcr := (\<lambda>_. 0)(0 := peek64 (kmem s) 0xffffffe000500088)\<rparr>), s)),
       ACT_DEBUGDATA_OFFSET = 0x460,
       off_ds64_bvr0 = 8,
       off_ds64_bcr0 = 136 \<rparr>"

text \<open>
  The example's kernel memory, zero but for: the thread port's object pointer, the
  thread's stack pointer and debug-data pointer, the stack pointer in the scheduled-off
  state, an outer (spin) snapshot at \<open>0xffffffe000004008\<close> and a trap snapshot two
  words above the end of the outer one, at \<open>0xffffffe000004368\<close>, whose \<^verbatim>\<open>pc\<close> is the
  breakpoint.
\<close>

definition example_kmem :: kmemory where
  "example_kmem =
     kwrite (kwrite (kwrite (kwrite (kwrite (kwrite (kwrite (kwrite (\<lambda>_. 0)
       0xffffffe000300068 (le_bytes 8 0xffffffe000200000))
       0xffffffe000200450 (le_bytes 8 0xffffffe000008000))
       0xffffffe000200460 (le_bytes 8 0xffffffe000500000))
       0xffffffe000008100 (le_bytes 8 0xffffffe000004000))
       0xffffffe000004008 (le_bytes 8 0x4800000015))
       0xffffffe000004110 (le_bytes 8 0xfffffff0071a0000))
       0xffffffe000004368 (le_bytes 8 0x4800000015))
       0xffffffe000004470 (le_bytes 8 0xfffffff007430000)"

definition example_state :: dbg_state where
  "example_state = \<lparr> kmem = example_kmem, syscall_complete = 0, kernel_leak = 0, trace = [] \<rparr>"

definition example_args :: bp_hits_args where
  "example_args =
     \<lparr> target_thread_port = 0x1003,
       looper_pc = example_ksym KSYMBOL_EL1_HW_BP_INFINITE_LOOP,
       breakpoint = example_ksym KSYMBOL_WRITE_SYSCALL_ENTRYPOINT,
       callback = sys_write_breakpoint_handler example_layout 0x100404000,
       frame_after_stack = (\<lambda>_. 0) \<rparr>"

text \<open>A state whose kernel memory is all zero.\<close>

definition blank_state :: dbg_state where
  "blank_state = \<lparr> kmem = (\<lambda>_. 0), syscall_complete = 0, kernel_leak = 0, trace = [] \<rparr>"

text \<open>
  A state in which the watched thread is scheduled off with a saved stack pointer, and
  the 128 words above that stack pointer are zero: no spin snapshot is there (yet).
\<close>

definition spinless_kmem :: kmemory where
  "spinless_kmem =
     kwrite (kwrite (kwrite (\<lambda>_. 0)
       0xffffffe000300068 (le_bytes 8 0xffffffe000200000))
       0xffffffe000200450 (le_bytes 8 0xffffffe000008000))
       0xffffffe000008100 (le_bytes 8 0xffffffe000004000)"

definition spinless_state :: dbg_state where
  "spinless_state =
     \<lparr> kmem = spinless_kmem, syscall_complete = 0, kernel_leak = 0, trace = [] \<rparr>"

text \<open>The request of \<^verbatim>\<open>test_kdbg\<close>: \<^verbatim>\<open>write(1, hello_wrld_str, 11)\<close>.\<close>

definition example_request :: syscall_args where
  "example_request = \<lparr> number = 4, arg = [1, 0x100403f00, 11, 0, 0, 0, 0, 0] \<rparr>"

section \<open>Facts about bytes and buffers\<close>

lemma le_word_le_bytes: "le_word (le_bytes n w) = take_bit (8 * n) w"
proof (induction n arbitrary: w)
  case 0
  then show ?case by simp
next
  case (Suc n)
  show ?case
    apply (simp add: Suc)
    apply (rule bit_eqI)
    apply (auto simp add: bit_simps)
    done
qed

lemma length_le_bytes [simp]: "length (le_bytes n w) = n"
  by (induction n arbitrary: w) auto

lemma le_word_le_bytes8 [simp]: "le_word (le_bytes 8 w) = w"
  by (simp add: le_word_le_bytes take_bit_word_eq_self)

lemma le_word_le_bytes4 [simp]: "(ucast (le_word (le_bytes 4 (ucast (v::u32)))) :: u32) = v"
  apply (simp add: le_word_le_bytes)
  apply (rule bit_eqI)
  apply (auto simp add: bit_simps)
  done

lemma length_put_bytes [simp]:
  "off + length bs \<le> length buf \<Longrightarrow> length (put_bytes buf off bs) = length buf"
  by (simp add: put_bytes_def)

lemma nth_put_bytes:
  "off + length bs \<le> length buf \<Longrightarrow> j < length buf \<Longrightarrow>
     put_bytes buf off bs ! j =
       (if off \<le> j \<and> j < off + length bs then bs ! (j - off) else buf ! j)"
  by (auto simp add: put_bytes_def nth_append min_def)

lemma get_bytes_put_bytes_same:
  "off + length bs \<le> length buf \<Longrightarrow> get_bytes (put_bytes buf off bs) off (length bs) = bs"
  by (simp add: put_bytes_def get_bytes_def)

lemma get_bytes_put_bytes_disjoint:
  "off + length bs \<le> length buf \<Longrightarrow> off' + n \<le> length buf \<Longrightarrow>
   off' + n \<le> off \<or> off + length bs \<le> off' \<Longrightarrow>
     get_bytes (put_bytes buf off bs) off' n = get_bytes buf off' n"
  by (rule nth_equalityI) (auto simp add: get_bytes_def nth_put_bytes)

section \<open>Facts about kernel memory\<close>

lemma length_kread [simp]: "length (kread m a n) = n"
  by (simp add: kread_def)

lemma nth_kread [simp]: "k < n \<Longrightarrow> kread m a n ! k = m (a + of_nat k)"
  by (simp add: kread_def)

lemma unat_of_nat64: "k < 2 ^ 64 \<Longrightarrow> unat (of_nat k :: u64) = k"
  by (simp add: unat_of_nat)

lemma unat_of_nat_diff64:
  "i < 2 ^ 64 \<Longrightarrow> j < 2 ^ 64 \<Longrightarrow>
     unat (of_nat i - of_nat j :: u64) = (if j \<le> i then i - j else i + 2 ^ 64 - j)"
  by (simp add: unat_sub_if_size unat_of_nat64 word_size)

lemma kwrite_inside:
  "k < length bs \<Longrightarrow> length bs \<le> 2 ^ 64 \<Longrightarrow> kwrite m a bs (a + of_nat k) = bs ! k"
  by (simp add: kwrite_def unat_of_nat64)

lemma kwrite_outside: "length bs \<le> unat (x - a) \<Longrightarrow> kwrite m a bs x = m x"
  by (simp add: kwrite_def)

lemma kread_kwrite_same:
  "length bs \<le> 2 ^ 64 \<Longrightarrow> kread (kwrite m a bs) a (length bs) = bs"
  by (rule nth_equalityI) (simp_all add: kwrite_inside)

lemma kread_kwrite_disjoint:
  "(\<And>k. k < n \<Longrightarrow> length bs \<le> unat (b + of_nat k - a)) \<Longrightarrow>
     kread (kwrite m a bs) b n = kread m b n"
  by (rule nth_equalityI) (simp_all add: kwrite_outside)

lemma get_bytes_kread:
  "off + n \<le> len \<Longrightarrow> get_bytes (kread m a len) off n = kread m (a + of_nat off) n"
  by (rule nth_equalityI) (simp_all add: get_bytes_def add.assoc)

lemma kread_kwrite_inside:
  assumes "off + length bs \<le> n" "n < 2 ^ 64"
  shows "kread (kwrite m (a + of_nat off) bs) a n = put_bytes (kread m a n) off bs"
proof (rule nth_equalityI)
  show "length (kread (kwrite m (a + of_nat off) bs) a n)
      = length (put_bytes (kread m a n) off bs)"
    using assms by simp
next
  fix i assume "i < length (kread (kwrite m (a + of_nat off) bs) a n)"
  then have i: "i < n" by simp
  have eq: "a + of_nat i - (a + of_nat off) = (of_nat i - of_nat off :: u64)" by simp
  have "unat (of_nat i - of_nat off :: u64) = (if off \<le> i then i - off else i + 2 ^ 64 - off)"
    using i assms by (intro unat_of_nat_diff64) auto
  with i assms
  show "kread (kwrite m (a + of_nat off) bs) a n ! i = put_bytes (kread m a n) off bs ! i"
    by (auto simp add: nth_put_bytes kwrite_def eq)
qed

section \<open>Facts about the primitives\<close>

lemma emit_simps [simp]:
  "kmem (emit e s) = kmem s"
  "syscall_complete (emit e s) = syscall_complete s"
  "kernel_leak (emit e s) = kernel_leak s"
  "trace (emit e s) = e # trace s"
  by (simp_all add: emit_def)

lemma rk_simps [simp]:
  "fst (rk64 addr s) = peek64 (kmem s) addr"
  "snd (rk64 addr s) = emit (Ev_rk64 addr) s"
  "fst (rk32 addr s) = peek32 (kmem s) addr"
  "snd (rk32 addr s) = emit (Ev_rk32 addr) s"
  by (simp_all add: rk64_def rk32_def)

lemma wk_simps [simp]:
  "kmem (wk64 addr v s) = kwrite (kmem s) addr (le_bytes 8 v)"
  "kmem (wk32 addr w s) = kwrite (kmem s) addr (le_bytes 4 (ucast w))"
  "syscall_complete (wk64 addr v s) = syscall_complete s"
  "syscall_complete (wk32 addr w s) = syscall_complete s"
  "trace (wk64 addr v s) = Ev_wk64 addr v # trace s"
  "trace (wk32 addr w s) = Ev_wk32 addr w # trace s"
  by (simp_all add: wk64_def wk32_def)

lemma kmemcpy_simps [simp]:
  "fst (kmemcpy_from_kernel src n s) = kread (kmem s) src n"
  "snd (kmemcpy_from_kernel src n s) = emit (Ev_kmemcpy_from_kernel src n) s"
  "kmem (kmemcpy_to_kernel dst buf s) = kwrite (kmem s) dst buf"
  "syscall_complete (kmemcpy_to_kernel dst buf s) = syscall_complete s"
  "trace (kmemcpy_to_kernel dst buf s) = Ev_kmemcpy_to_kernel dst (length buf) # trace s"
  by (simp_all add: kmemcpy_from_kernel_def kmemcpy_to_kernel_def)

lemma effect_simps [simp]:
  "kmem (printf msg s) = kmem s"
  "kmem (sleep n s) = kmem s"
  "kmem (thread_switch port s) = kmem s"
  "kmem (swtch_pri pri s) = kmem s"
  "syscall_complete (printf msg s) = syscall_complete s"
  "syscall_complete (sleep n s) = syscall_complete s"
  "syscall_complete (thread_switch port s) = syscall_complete s"
  "syscall_complete (swtch_pri pri s) = syscall_complete s"
  "trace (printf msg s) = Ev_printf msg # trace s"
  "trace (sleep n s) = Ev_sleep n # trace s"
  "trace (thread_switch port s) = Ev_thread_switch port # trace s"
  "trace (swtch_pri pri s) = Ev_swtch_pri pri # trace s"
  by (simp_all add: printf_def sleep_def thread_switch_def swtch_pri_def)

section \<open>Facts about the fields of a context\<close>

lemma length_set64 [simp]: "off + 8 \<le> length buf \<Longrightarrow> length (set64 buf off v) = length buf"
  by (simp add: set64_def)

lemma length_set32 [simp]: "off + 4 \<le> length buf \<Longrightarrow> length (set32 buf off v) = length buf"
  by (simp add: set32_def)

lemma get64_set64_same: "off + 8 \<le> length buf \<Longrightarrow> get64 (set64 buf off v) off = v"
  using get_bytes_put_bytes_same [of off "le_bytes 8 v" buf]
  by (simp add: get64_def set64_def)

lemma get32_set32_same: "off + 4 \<le> length buf \<Longrightarrow> get32 (set32 buf off v) off = v"
  using get_bytes_put_bytes_same [of off "le_bytes 4 (ucast v)" buf]
  by (simp add: get32_def set32_def)

lemma get64_set64_other:
  "off + 8 \<le> length buf \<Longrightarrow> off' + 8 \<le> length buf \<Longrightarrow> off' + 8 \<le> off \<or> off + 8 \<le> off' \<Longrightarrow>
     get64 (set64 buf off v) off' = get64 buf off'"
  using get_bytes_put_bytes_disjoint [of off "le_bytes 8 v" buf off' 8]
  by (simp add: get64_def set64_def)

lemma get64_set32_other:
  "off + 4 \<le> length buf \<Longrightarrow> off' + 8 \<le> length buf \<Longrightarrow> off' + 8 \<le> off \<or> off + 4 \<le> off' \<Longrightarrow>
     get64 (set32 buf off v) off' = get64 buf off'"
  using get_bytes_put_bytes_disjoint [of off "le_bytes 4 (ucast v)" buf off' 8]
  by (simp add: get64_def set32_def)

lemma get32_set64_other:
  "off + 8 \<le> length buf \<Longrightarrow> off' + 4 \<le> length buf \<Longrightarrow> off' + 4 \<le> off \<or> off + 8 \<le> off' \<Longrightarrow>
     get32 (set64 buf off v) off' = get32 buf off'"
  using get_bytes_put_bytes_disjoint [of off "le_bytes 8 v" buf off' 4]
  by (simp add: get32_def set64_def)

lemma get32_set32_other:
  "off + 4 \<le> length buf \<Longrightarrow> off' + 4 \<le> length buf \<Longrightarrow> off' + 4 \<le> off \<or> off + 4 \<le> off' \<Longrightarrow>
     get32 (set32 buf off v) off' = get32 buf off'"
  using get_bytes_put_bytes_disjoint [of off "le_bytes 4 (ucast v)" buf off' 4]
  by (simp add: get32_def set32_def)

lemma is_context_zero [simp]: "wf_layout lay \<Longrightarrow> is_context lay (zero_context lay)"
  by (simp add: is_context_def zero_context_def)

lemma is_context_set [simp]:
  "is_context lay ctx \<Longrightarrow> i < 29 \<Longrightarrow> is_context lay (set_ss64_x lay i v ctx)"
  "is_context lay ctx \<Longrightarrow> is_context lay (set_ss64_sp lay v ctx)"
  "is_context lay ctx \<Longrightarrow> is_context lay (set_ss64_pc lay v ctx)"
  "is_context lay ctx \<Longrightarrow> is_context lay (set_ss64_cpsr lay c ctx)"
  "is_context lay ctx \<Longrightarrow> is_context lay (set_ss_flavor lay c ctx)"
  by (simp_all add: is_context_def wf_layout_def set_ss64_x_def set_ss64_sp_def
      set_ss64_pc_def set_ss64_cpsr_def set_ss_flavor_def)

lemma ss64_x_set_x [simp]:
  assumes "is_context lay ctx" "i < 29" "j < 29"
  shows "ss64_x lay i (set_ss64_x lay j v ctx) = (if i = j then v else ss64_x lay i ctx)"
proof (cases "i = j")
  case True
  with assms show ?thesis
    by (simp add: is_context_def wf_layout_def ss64_x_def set_ss64_x_def get64_set64_same)
next
  case False
  then have "off_x lay + 8 * i + 8 \<le> off_x lay + 8 * j \<or> off_x lay + 8 * j + 8 \<le> off_x lay + 8 * i"
    by arith
  moreover have "off_x lay + 8 * j + 8 \<le> length ctx" "off_x lay + 8 * i + 8 \<le> length ctx"
    using assms by (simp_all add: is_context_def wf_layout_def)
  ultimately show ?thesis
    using False by (simp add: ss64_x_def set_ss64_x_def get64_set64_other)
qed

lemma ss64_x_set [simp]:
  "is_context lay ctx \<Longrightarrow> i < 29 \<Longrightarrow> ss64_x lay i (set_ss64_sp lay v ctx) = ss64_x lay i ctx"
  "is_context lay ctx \<Longrightarrow> i < 29 \<Longrightarrow> ss64_x lay i (set_ss64_pc lay v ctx) = ss64_x lay i ctx"
  "is_context lay ctx \<Longrightarrow> i < 29 \<Longrightarrow> ss64_x lay i (set_ss64_cpsr lay c ctx) = ss64_x lay i ctx"
  "is_context lay ctx \<Longrightarrow> i < 29 \<Longrightarrow> ss64_x lay i (set_ss_flavor lay c ctx) = ss64_x lay i ctx"
  by (auto simp add: is_context_def wf_layout_def ss64_x_def set_ss64_x_def set_ss64_sp_def
      set_ss64_pc_def set_ss64_cpsr_def set_ss_flavor_def
      get64_set64_same get64_set64_other get64_set32_other)

lemma ss64_sp_set [simp]:
  "is_context lay ctx \<Longrightarrow> j < 29 \<Longrightarrow> ss64_sp lay (set_ss64_x lay j v ctx) = ss64_sp lay ctx"
  "is_context lay ctx \<Longrightarrow> ss64_sp lay (set_ss64_sp lay v ctx) = v"
  "is_context lay ctx \<Longrightarrow> ss64_sp lay (set_ss64_pc lay v ctx) = ss64_sp lay ctx"
  "is_context lay ctx \<Longrightarrow> ss64_sp lay (set_ss64_cpsr lay c ctx) = ss64_sp lay ctx"
  "is_context lay ctx \<Longrightarrow> ss64_sp lay (set_ss_flavor lay c ctx) = ss64_sp lay ctx"
  by (auto simp add: is_context_def wf_layout_def ss64_sp_def set_ss64_x_def set_ss64_sp_def
      set_ss64_pc_def set_ss64_cpsr_def set_ss_flavor_def
      get64_set64_same get64_set64_other get64_set32_other)

lemma ss64_pc_set [simp]:
  "is_context lay ctx \<Longrightarrow> j < 29 \<Longrightarrow> ss64_pc lay (set_ss64_x lay j v ctx) = ss64_pc lay ctx"
  "is_context lay ctx \<Longrightarrow> ss64_pc lay (set_ss64_sp lay v ctx) = ss64_pc lay ctx"
  "is_context lay ctx \<Longrightarrow> ss64_pc lay (set_ss64_pc lay v ctx) = v"
  "is_context lay ctx \<Longrightarrow> ss64_pc lay (set_ss64_cpsr lay c ctx) = ss64_pc lay ctx"
  "is_context lay ctx \<Longrightarrow> ss64_pc lay (set_ss_flavor lay c ctx) = ss64_pc lay ctx"
  by (auto simp add: is_context_def wf_layout_def ss64_pc_def set_ss64_x_def set_ss64_sp_def
      set_ss64_pc_def set_ss64_cpsr_def set_ss_flavor_def
      get64_set64_same get64_set64_other get64_set32_other)

lemma ss64_cpsr_set [simp]:
  "is_context lay ctx \<Longrightarrow> j < 29 \<Longrightarrow> ss64_cpsr lay (set_ss64_x lay j v ctx) = ss64_cpsr lay ctx"
  "is_context lay ctx \<Longrightarrow> ss64_cpsr lay (set_ss64_sp lay v ctx) = ss64_cpsr lay ctx"
  "is_context lay ctx \<Longrightarrow> ss64_cpsr lay (set_ss64_pc lay v ctx) = ss64_cpsr lay ctx"
  "is_context lay ctx \<Longrightarrow> ss64_cpsr lay (set_ss64_cpsr lay c ctx) = c"
  "is_context lay ctx \<Longrightarrow> ss64_cpsr lay (set_ss_flavor lay c ctx) = ss64_cpsr lay ctx"
  by (auto simp add: is_context_def wf_layout_def ss64_cpsr_def set_ss64_x_def set_ss64_sp_def
      set_ss64_pc_def set_ss64_cpsr_def set_ss_flavor_def
      get32_set32_same get32_set64_other get32_set32_other)

lemma ss_flavor_set [simp]:
  "is_context lay ctx \<Longrightarrow> j < 29 \<Longrightarrow> ss_flavor lay (set_ss64_x lay j v ctx) = ss_flavor lay ctx"
  "is_context lay ctx \<Longrightarrow> ss_flavor lay (set_ss64_sp lay v ctx) = ss_flavor lay ctx"
  "is_context lay ctx \<Longrightarrow> ss_flavor lay (set_ss64_pc lay v ctx) = ss_flavor lay ctx"
  "is_context lay ctx \<Longrightarrow> ss_flavor lay (set_ss64_cpsr lay c ctx) = ss_flavor lay ctx"
  "is_context lay ctx \<Longrightarrow> ss_flavor lay (set_ss_flavor lay c ctx) = c"
  by (auto simp add: is_context_def wf_layout_def ss_flavor_def set_ss64_x_def set_ss64_sp_def
      set_ss64_pc_def set_ss64_cpsr_def set_ss_flavor_def
      get32_set32_same get32_set64_other get32_set32_other)

lemma is_context_length: "is_context lay ctx \<Longrightarrow> length ctx = ctx_size lay"
  by (simp add: is_context_def)

section \<open>The LOCATE_TRAP loop\<close>

lemma probed_simps [simp]:
  "probed start 0 s = s"
  "probed start (Suc n) s = emit (Ev_rk64 (start + 8 * of_nat n)) (probed start n s)"
  by (simp_all add: probed_def)

lemma probed_proj [simp]:
  "kmem (probed start n s) = kmem s"
  "syscall_complete (probed start n s) = syscall_complete s"
  "kernel_leak (probed start n s) = kernel_leak s"
  by (induction n) simp_all

lemma probed_trace:
  "trace (probed start n s) = rev (map (\<lambda>j. Ev_rk64 (start + 8 * of_nat j)) [0..<n]) @ trace s"
  by (induction n) simp_all

lemma probed_shift:
  "probed (start + 8) n (emit (Ev_rk64 start) s) = probed start (Suc n) s"
proof (induction n)
  case 0
  then show ?case by simp
next
  case (Suc n)
  have "start + 8 + 8 * of_nat n = start + 8 * (1 + of_nat n)"
    by (simp add: algebra_simps)
  with Suc show ?case by simp
qed

lemma locate_trap_from_miss:
  assumes "i + n = 1000"
    and "\<forall>j<n. peek64 (kmem s) (a + 8 * of_nat j) \<noteq> flavor_and_count_tag lay"
  shows "locate_trap_from lay bp i a s = ((False, a + 8 * of_nat n), probed a n s)"
  using assms
proof (induction n arbitrary: i a s)
  case 0
  then have "i = 1000" by simp
  then show ?case by (simp add: locate_trap_from.simps [of _ _ 1000])
next
  case (Suc n)
  from Suc.prems have lt: "i < 1000" by simp
  have first: "peek64 (kmem s) a \<noteq> flavor_and_count_tag lay"
    using Suc.prems(2) [rule_format, of 0] by simp
  have rest: "\<forall>j<n. peek64 (kmem (emit (Ev_rk64 a) s)) (a + 8 + 8 * of_nat j) \<noteq> flavor_and_count_tag lay"
  proof (intro allI impI)
    fix j assume j: "j < n"
    have eq: "a + 8 + 8 * of_nat j = a + 8 * of_nat (Suc j)"
      by (simp add: algebra_simps)
    show "peek64 (kmem (emit (Ev_rk64 a) s)) (a + 8 + 8 * of_nat j) \<noteq> flavor_and_count_tag lay"
      unfolding eq emit_simps using Suc.prems(2) [rule_format, of "Suc j"] j by blast
  qed
  have "locate_trap_from lay bp (i + 1) (a + 8) (emit (Ev_rk64 a) s)
      = ((False, a + 8 + 8 * of_nat n), probed (a + 8) n (emit (Ev_rk64 a) s))"
    using Suc.prems(1) by (intro Suc.IH rest) simp
  then show ?case
    using lt first
    by (simp add: locate_trap_from.simps [of _ _ i] probed_shift algebra_simps)
qed

lemma locate_trap_from_hit:
  assumes "i + k < 1000"
    and "\<forall>j<k. peek64 (kmem s) (a + 8 * of_nat j) \<noteq> flavor_and_count_tag lay"
    and "peek64 (kmem s) (a + 8 * of_nat k) = flavor_and_count_tag lay"
  shows "locate_trap_from lay bp i a s =
     ((True, a + 8 * of_nat k),
      inspect_bp_context lay bp (a + 8 * of_nat k) (probed a (Suc k) s))"
  using assms
proof (induction k arbitrary: i a s)
  case 0
  then show ?case by (simp add: locate_trap_from.simps [of _ _ i])
next
  case (Suc k)
  from Suc.prems have lt: "i < 1000" by simp
  have first: "peek64 (kmem s) a \<noteq> flavor_and_count_tag lay"
    using Suc.prems(2) [rule_format, of 0] by simp
  have rest: "\<forall>j<k. peek64 (kmem (emit (Ev_rk64 a) s)) (a + 8 + 8 * of_nat j) \<noteq> flavor_and_count_tag lay"
  proof (intro allI impI)
    fix j assume j: "j < k"
    have eq: "a + 8 + 8 * of_nat j = a + 8 * of_nat (Suc j)"
      by (simp add: algebra_simps)
    show "peek64 (kmem (emit (Ev_rk64 a) s)) (a + 8 + 8 * of_nat j) \<noteq> flavor_and_count_tag lay"
      unfolding eq emit_simps using Suc.prems(2) [rule_format, of "Suc j"] j by blast
  qed
  have eq: "a + 8 + 8 * of_nat k = a + 8 * of_nat (Suc k)"
    by (simp add: algebra_simps)
  have hit: "peek64 (kmem (emit (Ev_rk64 a) s)) (a + 8 + 8 * of_nat k) = flavor_and_count_tag lay"
    unfolding eq emit_simps using Suc.prems(3) .
  have "locate_trap_from lay bp (i + 1) (a + 8) (emit (Ev_rk64 a) s)
      = ((True, a + 8 + 8 * of_nat k),
         inspect_bp_context lay bp (a + 8 + 8 * of_nat k) (probed (a + 8) (Suc k) (emit (Ev_rk64 a) s)))"
    using Suc.prems(1) by (intro Suc.IH rest hit) simp
  then show ?case
    using lt first
    by (simp add: locate_trap_from.simps [of _ _ i] probed_shift algebra_simps)
qed

lemma fold_printf_proj [simp]:
  "kmem (fold (\<lambda>k. printf (f k)) xs s) = kmem s"
  "syscall_complete (fold (\<lambda>k. printf (f k)) xs s) = syscall_complete s"
  "trace (fold (\<lambda>k. printf (f k)) xs s) = rev (map (\<lambda>k. Ev_printf (f k)) xs) @ trace s"
  by (induction xs arbitrary: s) simp_all

lemma inspect_bp_context_proj [simp]:
  "kmem (inspect_bp_context lay bp b s) = kmem s"
  "syscall_complete (inspect_bp_context lay bp b s) = syscall_complete s"
  by (simp_all add: inspect_bp_context_def Let_def case_prod_beta)

lemma inspect_bp_context_trace:
  "trace (inspect_bp_context lay bp b s) =
     (if ss64_pc lay (kread (kmem s) b (ctx_size lay)) \<noteq> bp
      then [Ev_printf (Msg_unexpected_breakpoint (ss64_pc lay (kread (kmem s) b (ctx_size lay))))]
      else []) @
     rev (map (\<lambda>k. Ev_printf (Msg_hex16 (get64 (kread (kmem s) b (ctx_size lay)) (8 * k)))) [0..<40]) @
     Ev_kmemcpy_from_kernel b (ctx_size lay) # trace s"
  by (simp add: inspect_bp_context_def Let_def case_prod_beta)

lemma locate_trap_cases:
  fixes lay L s bp
  defines "start \<equiv> L + of_nat (ctx_size lay)"
  shows "\<exists>k\<le>1000.
     (\<forall>j<k. peek64 (kmem s) (start + 8 * of_nat j) \<noteq> flavor_and_count_tag lay) \<and>
     (k < 1000 \<longrightarrow>
        peek64 (kmem s) (start + 8 * of_nat k) = flavor_and_count_tag lay \<and>
        locate_trap lay bp L s =
          ((True, start + 8 * of_nat k),
           inspect_bp_context lay bp (start + 8 * of_nat k) (probed start (Suc k) s))) \<and>
     (k = 1000 \<longrightarrow>
        locate_trap lay bp L s =
          ((False, start + 8 * of_nat k),
           printf Msg_unable_to_find_bp_hitting_state (probed start 1000 s)))"
proof (cases "\<exists>j<1000. peek64 (kmem s) (start + 8 * of_nat j) = flavor_and_count_tag lay")
  case True
  then have "\<exists>j. j < 1000 \<and> peek64 (kmem s) (start + 8 * of_nat j) = flavor_and_count_tag lay"
    by blast
  then obtain k where k: "k < 1000"
      "peek64 (kmem s) (start + 8 * of_nat k) = flavor_and_count_tag lay"
      and least: "\<forall>j<k. \<not> (j < 1000 \<and> peek64 (kmem s) (start + 8 * of_nat j) = flavor_and_count_tag lay)"
    unfolding exists_least_iff [of "\<lambda>j. j < 1000 \<and> peek64 (kmem s) (start + 8 * of_nat j) = flavor_and_count_tag lay"]
    by blast
  from least k(1) have before: "\<forall>j<k. peek64 (kmem s) (start + 8 * of_nat j) \<noteq> flavor_and_count_tag lay"
    by auto
  have "0 + k < 1000" using k(1) by simp
  from locate_trap_from_hit [OF this before k(2)]
  have "locate_trap lay bp L s =
          ((True, start + 8 * of_nat k),
           inspect_bp_context lay bp (start + 8 * of_nat k) (probed start (Suc k) s))"
    by (simp add: locate_trap_def start_def Let_def)
  with k before show ?thesis
    by (intro exI [of _ k]) simp
next
  case False
  then have none: "\<forall>j<1000. peek64 (kmem s) (start + 8 * of_nat j) \<noteq> flavor_and_count_tag lay"
    by blast
  have "0 + 1000 = (1000::nat)" by simp
  from locate_trap_from_miss [OF this none]
  have "locate_trap lay bp L s =
          ((False, start + 8 * of_nat 1000),
           printf Msg_unable_to_find_bp_hitting_state (probed start 1000 s))"
    by (simp add: locate_trap_def start_def Let_def)
  with none show ?thesis
    by (intro exI [of _ 1000]) simp
qed

lemma locate_trap_address:
  "\<exists>k\<le>1000. snd (fst (locate_trap lay bp L s)) = L + of_nat (ctx_size lay) + 8 * of_nat k"
  using locate_trap_cases [of s L lay bp] by (metis fst_conv snd_conv le_neq_implies_less)

lemma locate_trap_proj [simp]:
  "kmem (snd (locate_trap lay bp L s)) = kmem s"
  "syscall_complete (snd (locate_trap lay bp L s)) = syscall_complete s"
proof -
  obtain k where k: "k \<le> 1000"
     "k < 1000 \<longrightarrow> locate_trap lay bp L s =
          ((True, L + of_nat (ctx_size lay) + 8 * of_nat k),
           inspect_bp_context lay bp (L + of_nat (ctx_size lay) + 8 * of_nat k)
             (probed (L + of_nat (ctx_size lay)) (Suc k) s))"
     "k = 1000 \<longrightarrow> locate_trap lay bp L s =
          ((False, L + of_nat (ctx_size lay) + 8 * of_nat k),
           printf Msg_unable_to_find_bp_hitting_state (probed (L + of_nat (ctx_size lay)) 1000 s))"
    using locate_trap_cases [of s L lay bp] by blast
  show "kmem (snd (locate_trap lay bp L s)) = kmem s"
    using k by (cases "k < 1000") (simp_all del: probed_simps)
  show "syscall_complete (snd (locate_trap lay bp L s)) = syscall_complete s"
    using k by (cases "k < 1000") (simp_all del: probed_simps)
qed

lemma locate_trap_same_address:
  "fst (locate_trap lay bp' L s) = fst (locate_trap lay bp L s)"
proof -
  let ?start = "L + of_nat (ctx_size lay)"
  let ?tag = "flavor_and_count_tag lay"
  obtain k where k: "k \<le> 1000"
      "\<forall>j<k. peek64 (kmem s) (?start + 8 * of_nat j) \<noteq> ?tag"
      "k < 1000 \<longrightarrow> peek64 (kmem s) (?start + 8 * of_nat k) = ?tag \<and>
         fst (locate_trap lay bp L s) = (True, ?start + 8 * of_nat k)"
      "k = 1000 \<longrightarrow> fst (locate_trap lay bp L s) = (False, ?start + 8 * of_nat k)"
    using locate_trap_cases [of s L lay bp] by force
  obtain k' where k': "k' \<le> 1000"
      "\<forall>j<k'. peek64 (kmem s) (?start + 8 * of_nat j) \<noteq> ?tag"
      "k' < 1000 \<longrightarrow> peek64 (kmem s) (?start + 8 * of_nat k') = ?tag \<and>
         fst (locate_trap lay bp' L s) = (True, ?start + 8 * of_nat k')"
      "k' = 1000 \<longrightarrow> fst (locate_trap lay bp' L s) = (False, ?start + 8 * of_nat k')"
    using locate_trap_cases [of s L lay bp'] by force
  have "\<not> k < k'"
  proof
    assume lt: "k < k'"
    with k'(1) have "k < 1000" by simp
    with k(3) have "peek64 (kmem s) (?start + 8 * of_nat k) = ?tag" by simp
    with k'(2) lt show False by blast
  qed
  moreover have "\<not> k' < k"
  proof
    assume lt: "k' < k"
    with k(1) have "k' < 1000" by simp
    with k'(3) have "peek64 (kmem s) (?start + 8 * of_nat k') = ?tag" by simp
    with k(2) lt show False by blast
  qed
  ultimately have "k' = k" by simp
  with k k' show ?thesis by (cases "k < 1000") auto
qed

section \<open>The write back and the patch\<close>

lemma patch_and_resume_kmem [simp]:
  "kmem (patch_and_resume env lay a L b ctx s) =
     kwrite (kwrite (kmem s) b ctx) (L + of_nat (off_pc lay))
       (le_bytes 8 (ksym env KSYMBOL_SLEH_SYNC_EPILOG))"
  by (simp add: patch_and_resume_def Let_def)

lemma copy_bp_context_proj [simp]:
  "fst (copy_bp_context lay b s) = kread (kmem s) b (ctx_size lay)"
  "kmem (snd (copy_bp_context lay b s)) = kmem s"
  by (simp_all add: copy_bp_context_def Let_def case_prod_beta)

lemma trap_bytes_clear_of_outer_pc:
  assumes "off + 8 \<le> S" "S < 2 ^ 32" "k \<le> 1000" "j < S"
  shows "8 \<le> unat (L + of_nat S + 8 * of_nat k + of_nat j - (L + of_nat off) :: u64)"
proof -
  have eq: "L + of_nat S + 8 * of_nat k + of_nat j - (L + of_nat off)
      = (of_nat (S + 8 * k + j) - of_nat off :: u64)"
    by simp
  have u: "unat (of_nat (S + 8 * k + j) - of_nat off :: u64) = S + 8 * k + j - off"
    using assms by (subst unat_of_nat_diff64) auto
  show ?thesis unfolding eq u using assms by arith
qed

lemma outer_bytes_clear_of_trap:
  assumes "S < 2 ^ 32" "k \<le> 1000" "j < S"
  shows "S \<le> unat (L + of_nat j - (L + of_nat S + 8 * of_nat k) :: u64)"
proof -
  have eq: "L + of_nat j - (L + of_nat S + 8 * of_nat k) = (of_nat j - of_nat (S + 8 * k) :: u64)"
    by simp
  have u: "unat (of_nat j - of_nat (S + 8 * k) :: u64) = j + 2 ^ 64 - (S + 8 * k)"
    using assms by (subst unat_of_nat_diff64) auto
  show ?thesis unfolding eq u using assms by simp
qed

lemma patch_and_resume_memory:
  assumes wf: "wf_layout lay"
    and b: "b = L + of_nat (ctx_size lay) + 8 * of_nat k" "k \<le> 1000"
    and len: "length ctx = ctx_size lay"
  shows "kread (kmem (patch_and_resume env lay a L b ctx s)) b (ctx_size lay) = ctx"
    and "kread (kmem (patch_and_resume env lay a L b ctx s)) L (ctx_size lay)
         = set_ss64_pc lay (ksym env KSYMBOL_SLEH_SYNC_EPILOG) (kread (kmem s) L (ctx_size lay))"
    and "ctx_size lay \<le> unat (x - b) \<Longrightarrow> 8 \<le> unat (x - (L + of_nat (off_pc lay))) \<Longrightarrow>
         kmem (patch_and_resume env lay a L b ctx s) x = kmem s x"
proof -
  from wf have S: "ctx_size lay < 2 ^ 32" and pc: "off_pc lay + 8 \<le> ctx_size lay"
    by (simp_all add: wf_layout_def)
  let ?e = "le_bytes 8 (ksym env KSYMBOL_SLEH_SYNC_EPILOG)"
  have "kread (kwrite (kwrite (kmem s) b ctx) (L + of_nat (off_pc lay)) ?e) b (ctx_size lay)
      = kread (kwrite (kmem s) b ctx) b (ctx_size lay)"
  proof (rule kread_kwrite_disjoint)
    fix j assume "j < ctx_size lay"
    then show "length ?e \<le> unat (b + of_nat j - (L + of_nat (off_pc lay)))"
      unfolding b(1) length_le_bytes by (rule trap_bytes_clear_of_outer_pc [OF pc S b(2)])
  qed
  also have "\<dots> = ctx"
    using kread_kwrite_same [of ctx "kmem s" b] len S by simp
  finally show "kread (kmem (patch_and_resume env lay a L b ctx s)) b (ctx_size lay) = ctx"
    by simp
  have "kread (kwrite (kmem s) b ctx) L (ctx_size lay) = kread (kmem s) L (ctx_size lay)"
  proof (rule kread_kwrite_disjoint)
    fix j assume "j < ctx_size lay"
    then show "length ctx \<le> unat (L + of_nat j - b)"
      unfolding b(1) len by (rule outer_bytes_clear_of_trap [OF S b(2)])
  qed
  moreover have "kread (kwrite (kwrite (kmem s) b ctx) (L + of_nat (off_pc lay)) ?e) L (ctx_size lay)
      = put_bytes (kread (kwrite (kmem s) b ctx) L (ctx_size lay)) (off_pc lay) ?e"
    using pc S by (intro kread_kwrite_inside) simp_all
  ultimately show "kread (kmem (patch_and_resume env lay a L b ctx s)) L (ctx_size lay)
         = set_ss64_pc lay (ksym env KSYMBOL_SLEH_SYNC_EPILOG) (kread (kmem s) L (ctx_size lay))"
    by (simp add: set_ss64_pc_def set64_def)
  show "kmem (patch_and_resume env lay a L b ctx s) x = kmem s x"
    if "ctx_size lay \<le> unat (x - b)" "8 \<le> unat (x - (L + of_nat (off_pc lay)))"
    using that len by (simp add: kwrite_outside)
qed

section \<open>The WAIT_SPIN scanner\<close>

lemma saved_state_pc_inside:
  assumes "8 * i + off_pc lay + 8 \<le> length stack"
  shows "saved_state_pc lay stack beyond i = get64 stack (8 * i + off_pc lay)"
proof -
  have "map (\<lambda>k. frame_byte stack beyond (8 * i + off_pc lay + k)) [0..<8]
      = take 8 (drop (8 * i + off_pc lay) stack)"
    using assms by (intro nth_equalityI) (simp_all add: frame_byte_def)
  then show ?thesis
    by (simp add: saved_state_pc_def get64_def get_bytes_def)
qed

lemma scan_stack_from_spec:
  assumes "scan_stack_from lay beyond spin_pc sp stack i = (found_it, l, n)"
    and "i \<le> 128"
    and "\<forall>j<i. \<not> spin_snapshot_at lay beyond spin_pc stack j"
  shows "n \<le> 128 \<and>
     (found_it \<longrightarrow> (\<exists>k<128. spin_snapshot_at lay beyond spin_pc stack k \<and>
         (\<forall>j<k. \<not> spin_snapshot_at lay beyond spin_pc stack j) \<and>
         l = sp + of_nat (k * 8) \<and> n = k + 1)) \<and>
     (\<not> found_it \<longrightarrow>
         (\<forall>j<128. \<not> spin_snapshot_at lay beyond spin_pc stack j) \<and> l = 0 \<and> n = 128)"
  using assms
proof (induction lay beyond spin_pc sp stack i rule: scan_stack_from.induct)
  case (1 lay beyond spin_pc sp stack i)
  show ?case
  proof (cases "i < 128")
    case False
    with "1.prems" show ?thesis
      by (simp add: scan_stack_from.simps [of _ _ _ _ _ i])
  next
    case True
    note lt = this
    show ?thesis
    proof (cases "spin_snapshot_at lay beyond spin_pc stack i")
      case True
      with lt "1.prems" show ?thesis
        by (auto simp add: scan_stack_from.simps [of _ _ _ _ _ i] spin_snapshot_at_def)
    next
      case False
      have step: "scan_stack_from lay beyond spin_pc sp stack (i + 1) = (found_it, l, n)"
        using False lt "1.prems"(1)
        by (auto simp add: scan_stack_from.simps [of _ _ _ _ _ i] spin_snapshot_at_def
            split: if_splits)
      have none: "\<forall>j<i + 1. \<not> spin_snapshot_at lay beyond spin_pc stack j"
        using False "1.prems"(3) by (auto simp add: less_Suc_eq)
      show ?thesis
      proof (cases "stack_word stack i \<noteq> flavor_and_count_tag lay")
        case True
        from "1.IH"(1) [OF lt True step _ none] lt show ?thesis by simp
      next
        case f: False
        with False have pc: "saved_state_pc lay stack beyond i \<noteq> spin_pc"
          by (simp add: spin_snapshot_at_def)
        from "1.IH"(2) [OF lt f pc step _ none] lt show ?thesis by simp
      qed
    qed
  qed
qed



section \<open>The forged snapshots\<close>

lemma spsr_value: "SPSR_A OR SPSR_I OR SPSR_F OR SPSR_EL1_SP0 = (0x1c4 :: u32)"
  by (simp add: SPSR_A_def SPSR_I_def SPSR_F_def SPSR_EL1_SP0_def)

lemma less8_cases:
  "i < 8 \<Longrightarrow> i = 0 \<or> i = 1 \<or> i = 2 \<or> i = 3 \<or> i = 4 \<or> i = 5 \<or> i = 6 \<or> i = (7::nat)"
  by arith

lemma wf_example_layout [simp]: "wf_layout example_layout"
  by (simp add: wf_layout_def example_layout_def)

lemma do_syscall_entry:
  assumes "wf_layout lay"
  shows "is_context lay (fake_syscall_args (fst (do_syscall_with_pstate_d_unmasked env lay args s)))"
    and "ss_flavor lay (fake_syscall_args (fst (do_syscall_with_pstate_d_unmasked env lay args s))) = ARM_SAVED_STATE64 lay"
    and "ss64_x lay 16 (fake_syscall_args (fst (do_syscall_with_pstate_d_unmasked env lay args s))) = ucast (number args)"
    and "i < 8 \<Longrightarrow> ss64_x lay i (fake_syscall_args (fst (do_syscall_with_pstate_d_unmasked env lay args s))) = arg args ! i"
  using assms less8_cases [of i]
  by (auto simp add: do_syscall_with_pstate_d_unmasked_def Let_def case_prod_beta)

lemma do_syscall_dispatch:
  assumes "wf_layout lay"
  shows "ss64_x lay 0 (eret_return_state (fst (do_syscall_with_pstate_d_unmasked env lay args s)))
           = fake_syscall_args_kern (fst (do_syscall_with_pstate_d_unmasked env lay args s))"
    and "ss64_x lay 1 (eret_return_state (fst (do_syscall_with_pstate_d_unmasked env lay args s)))
           = push_bit 26 0x15"
    and "ss64_pc lay (eret_return_state (fst (do_syscall_with_pstate_d_unmasked env lay args s)))
           = ksym env KSYMBOL_VALID_LINK_REGISTER"
    and "fake_syscall_args_kern (fst (do_syscall_with_pstate_d_unmasked env lay args s)) = fst (early_kalloc env (ctx_size lay) s)"
  using assms
  by (simp_all add: do_syscall_with_pstate_d_unmasked_def Let_def case_prod_beta ESR_EC_SVC_64_def ESR_EC_SHIFT_def)

lemma do_syscall_dispatch_reads:
  assumes "wf_layout lay"
  shows "ss64_x lay 21 (eret_return_state (fst (do_syscall_with_pstate_d_unmasked env lay args s))) =
              peek64 (kmem (kmemcpy_to_kernel (fake_syscall_args_kern (fst (do_syscall_with_pstate_d_unmasked env lay args s))) 
                  (fake_syscall_args (fst (do_syscall_with_pstate_d_unmasked env lay args s))) (snd (early_kalloc env (ctx_size lay) s))))
                (current_thread env + koffset env KSTRUCT_OFFSET_THREAD_CONTEXT_DATA)"
      and "ss64_sp lay (eret_return_state (fst (do_syscall_with_pstate_d_unmasked env lay args s))) =
              peek64 (kmem (kmemcpy_to_kernel (fake_syscall_args_kern (fst (do_syscall_with_pstate_d_unmasked env lay args s))) 
                  (fake_syscall_args (fst (do_syscall_with_pstate_d_unmasked env lay args s))) (snd (early_kalloc env (ctx_size lay) s))))
               (current_thread env + koffset env KSTRUCT_OFFSET_THREAD_KSTACKPTR)"
  using assms
  by (simp_all add: do_syscall_with_pstate_d_unmasked_def Let_def case_prod_beta)

text \<open>
  Claim C6.  For every request with its eight argument slots,
  \<^verbatim>\<open>do_syscall_with_pstate_d_unmasked\<close> builds an entry snapshot whose flavor is
  \<^verbatim>\<open>ARM_SAVED_STATE64\<close>, whose \<^verbatim>\<open>x16\<close> is the operation number and whose \<^verbatim>\<open>x0..x7\<close> are
  \<^verbatim>\<open>arg[0..7]\<close>, and copies it to the address the allocator returned; and a dispatch
  snapshot whose \<^verbatim>\<open>x0\<close> is that kernel address, \<^verbatim>\<open>x1\<close> is the SVC-64 syndrome
  \<^verbatim>\<open>0x15 << 26\<close>, \<^verbatim>\<open>x21\<close> is the saved-context pointer read from the current thread,
  \<^verbatim>\<open>sp\<close> is the kernel stack pointer read from the current thread and \<^verbatim>\<open>pc\<close> is
  \<^verbatim>\<open>KSYMBOL_VALID_LINK_REGISTER\<close>.  Both reads see the kernel memory as it is once the
  entry snapshot has been copied.
\<close>

theorem do_syscall_builds_entry_and_dispatch_snapshots:
  assumes "wf_layout lay" and "length (arg args) = 8"
  shows "let frame = fst (do_syscall_with_pstate_d_unmasked env lay args s);
             entry = fake_syscall_args frame;
             dispatch = eret_return_state frame;
             entry_kern = fake_syscall_args_kern frame;
             s1 = snd (early_kalloc env (ctx_size lay) s);
             s2 = kmemcpy_to_kernel entry_kern entry s1
         in ss_flavor lay entry = ARM_SAVED_STATE64 lay \<and>
            ss64_x lay 16 entry = ucast (number args) \<and>
            (\<forall>i<8. ss64_x lay i entry = arg args ! i) \<and>
            entry_kern = fst (early_kalloc env (ctx_size lay) s) \<and>
            kread (kmem s2) entry_kern (ctx_size lay) = entry \<and>
            ss64_x lay 0 dispatch = entry_kern \<and>
            ss64_x lay 1 dispatch = push_bit 26 0x15 \<and>
            ss64_x lay 21 dispatch =
              peek64 (kmem s2) (current_thread env + koffset env KSTRUCT_OFFSET_THREAD_CONTEXT_DATA) \<and>
            ss64_sp lay dispatch =
              peek64 (kmem s2) (current_thread env + koffset env KSTRUCT_OFFSET_THREAD_KSTACKPTR) \<and>
            ss64_pc lay dispatch = ksym env KSYMBOL_VALID_LINK_REGISTER"
proof -
  note wf = assms(1)
  have len: "length (fake_syscall_args (fst (do_syscall_with_pstate_d_unmasked env lay args s)))
      = ctx_size lay"
    using do_syscall_entry(1) [OF wf] by (rule is_context_length)
  have copied: "kread (kmem (kmemcpy_to_kernel
         (fake_syscall_args_kern (fst (do_syscall_with_pstate_d_unmasked env lay args s)))
         (fake_syscall_args (fst (do_syscall_with_pstate_d_unmasked env lay args s)))
         (snd (early_kalloc env (ctx_size lay) s))))
       (fake_syscall_args_kern (fst (do_syscall_with_pstate_d_unmasked env lay args s)))
       (ctx_size lay)
     = fake_syscall_args (fst (do_syscall_with_pstate_d_unmasked env lay args s))"
    using kread_kwrite_same [of "fake_syscall_args (fst (do_syscall_with_pstate_d_unmasked env lay args s))"]
      wf len by (simp add: wf_layout_def)
  show ?thesis
    unfolding Let_def
    using do_syscall_entry(2-4) [OF wf] do_syscall_dispatch [OF wf]
      do_syscall_dispatch_reads [OF wf] copied
    by simp
qed

theorem do_syscall_builds_entry_and_dispatch_snapshots_witness:
  "wf_layout example_layout \<and> length (arg example_request) = 8 \<and>
   (let frame = fst (do_syscall_with_pstate_d_unmasked example_env example_layout
                       example_request example_state)
    in ss64_x example_layout 16 (fake_syscall_args frame) = 4 \<and>
       ss64_x example_layout 1 (fake_syscall_args frame) = 0x100403f00 \<and>
       ss64_x example_layout 0 (eret_return_state frame) = 0xffffffe000600000 \<and>
       ss64_x example_layout 1 (eret_return_state frame) = 0x54000000 \<and>
       ss64_pc example_layout (eret_return_state frame) = 0xfffffff0070cc1d4)"
proof -
  have wf: "wf_layout example_layout" by simp
  have len: "length (arg example_request) = 8" by (simp add: example_request_def)
  note built = do_syscall_builds_entry_and_dispatch_snapshots
    [OF wf len, of example_env example_state, unfolded Let_def]
  from built have "ss64_x example_layout 1 (fake_syscall_args
      (fst (do_syscall_with_pstate_d_unmasked example_env example_layout example_request
         example_state))) = arg example_request ! 1"
    by simp
  with built wf len show ?thesis
    by (simp add: Let_def example_request_def example_env_def example_state_def)
qed

text \<open>
  Claim C5.  The \<^verbatim>\<open>cpsr\<close> of the state that \<^verbatim>\<open>do_syscall_with_pstate_d_unmasked\<close> and
  \<^verbatim>\<open>set_MDSCR_EL1_KDE\<close> hand to the exception return is
  \<^verbatim>\<open>SPSR_A | SPSR_I | SPSR_F | SPSR_EL1_SP0\<close> in both: bits 8, 7 and 6 (A, I, F) are set,
  bit 9 (D) is clear, and the mode field is \<^verbatim>\<open>0x4\<close> (EL1 on \<^verbatim>\<open>SP_EL0\<close>).
\<close>

theorem forged_status_word_masks_AIF_and_unmasks_D:
  assumes "wf_layout lay"
  shows "let c1 = ss64_cpsr lay
                (eret_return_state (fst (do_syscall_with_pstate_d_unmasked env lay args s)));
             c2 = ss64_cpsr lay
                (eret_return_state (fst (set_MDSCR_EL1_KDE env lay thread_port s)))
         in c1 = SPSR_A OR SPSR_I OR SPSR_F OR SPSR_EL1_SP0 \<and> c2 = c1 \<and>
            bit c1 8 \<and> bit c1 7 \<and> bit c1 6 \<and> \<not> bit c1 9 \<and> c1 AND 0xf = 0x4 \<and>
            bit c2 8 \<and> bit c2 7 \<and> bit c2 6 \<and> \<not> bit c2 9 \<and> c2 AND 0xf = 0x4"
proof -
  have c1: "ss64_cpsr lay
      (eret_return_state (fst (do_syscall_with_pstate_d_unmasked env lay args s))) = 0x1c4"
    using assms
    by (simp add: do_syscall_with_pstate_d_unmasked_def Let_def case_prod_beta spsr_value)
  have c2: "ss64_cpsr lay
      (eret_return_state (fst (set_MDSCR_EL1_KDE env lay thread_port s))) = 0x1c4"
    using assms
    by (simp add: set_MDSCR_EL1_KDE_def Let_def case_prod_beta spsr_value)
  show ?thesis
    unfolding Let_def c1 c2 spsr_value by simp
qed

theorem forged_status_word_masks_AIF_and_unmasks_D_witness:
  "wf_layout example_layout \<and>
   ss64_cpsr example_layout (eret_return_state (fst (do_syscall_with_pstate_d_unmasked
      example_env example_layout example_request example_state))) = 0x1c4 \<and>
   ss64_cpsr example_layout (eret_return_state (fst (set_MDSCR_EL1_KDE
      example_env example_layout 0x1003 example_state))) = 0x1c4"
proof -
  have wf: "wf_layout example_layout" by simp
  from forged_status_word_masks_AIF_and_unmasks_D [OF wf, where env = example_env
      and args = example_request and s = example_state and thread_port = "0x1003"]
  show ?thesis
    using wf by (simp add: Let_def spsr_value)
qed


section \<open>The monitor on the example state\<close>

lemma upt8: "[0..<8] = [0, 1, 2, 3, 4, 5, 6, 7]"
  by (simp add: upt_rec)

lemma ss64_kread:
  "off_pc lay + 8 \<le> n \<Longrightarrow> ss64_pc lay (kread m a n) = peek64 m (a + of_nat (off_pc lay))"
  "off_sp lay + 8 \<le> n \<Longrightarrow> ss64_sp lay (kread m a n) = peek64 m (a + of_nat (off_sp lay))"
  by (simp_all add: ss64_pc_def ss64_sp_def get64_def peek64_def get_bytes_kread)

lemma stack_word_kread:
  assumes "8 * i + 8 \<le> n"
  shows "stack_word (kread m a n) i = peek64 m (a + 8 * of_nat i)"
proof -
  have "get_bytes (kread m a n) (8 * i) 8 = kread m (a + of_nat (8 * i)) 8"
    using assms by (rule get_bytes_kread)
  then show ?thesis
    by (simp add: stack_word_def get64_def peek64_def)
qed

lemma le_bytes8_unfold:
  "le_bytes 8 w = [ucast w, ucast (drop_bit 8 w), ucast (drop_bit 16 w),
     ucast (drop_bit 24 w), ucast (drop_bit 32 w), ucast (drop_bit 40 w),
     ucast (drop_bit 48 w), ucast (drop_bit 56 w)]"
  by (simp add: numeral_eq_Suc drop_bit_drop_bit)

lemma peek64_zero [simp]: "peek64 (\<lambda>_. 0) a = 0"
  by (simp add: peek64_def kread_def upt8)

lemma sys_write_breakpoint_handler_context:
  assumes "is_context lay st"
  shows "is_context lay (fst (sys_write_breakpoint_handler lay r st s))"
    and "ss64_pc lay (fst (sys_write_breakpoint_handler lay r st s)) = ss64_pc lay st + 4"
    and "ss64_x lay 8 (fst (sys_write_breakpoint_handler lay r st s))
           = peek64 (kmem s) (ss64_x lay 8 st + 0x388)"
  using assms
  by (simp_all add: sys_write_breakpoint_handler_def Let_def case_prod_beta)

lemma example_tag: "flavor_and_count_tag example_layout = 0x4800000015"
  by (simp add: flavor_and_count_tag_def example_layout_def)

lemma example_peeks:
  "peek64 example_kmem 0xffffffe000004358 = 0"
  "peek64 example_kmem 0xffffffe000004360 = 0"
  "peek64 example_kmem 0xffffffe000004368 = 0x4800000015"
  "peek64 example_kmem 0xffffffe000004470 = 0xfffffff007430000"
  by (simp_all add: peek64_def kread_def upt8 example_kmem_def kwrite_def le_bytes8_unfold
      unsigned_minus_1_eq_mask mask_eq_exp_minus_1)

lemma fold_printf_state:
  "fold (\<lambda>k. printf (f k)) xs s = s\<lparr>trace := rev (map (\<lambda>k. Ev_printf (f k)) xs) @ trace s\<rparr>"
  by (induction xs arbitrary: s) (simp_all add: printf_def emit_def)

lemma inspect_bp_context_state:
  "inspect_bp_context lay bp b s =
     s\<lparr>trace :=
         (if ss64_pc lay (kread (kmem s) b (ctx_size lay)) \<noteq> bp
          then [Ev_printf (Msg_unexpected_breakpoint
                  (ss64_pc lay (kread (kmem s) b (ctx_size lay))))]
          else []) @
         rev (map (\<lambda>k. Ev_printf (Msg_hex16 (get64 (kread (kmem s) b (ctx_size lay)) (8 * k))))
                [0..<40]) @
         Ev_kmemcpy_from_kernel b (ctx_size lay) # trace s\<rparr>"
  by (simp add: inspect_bp_context_def Let_def case_prod_beta fold_printf_state
      kmemcpy_from_kernel_def printf_def emit_def)

lemma example_locate_trap:
  "locate_trap example_layout bp 0xffffffe000004008 example_state =
     ((True, 0xffffffe000004368),
      inspect_bp_context example_layout bp 0xffffffe000004368
        (probed 0xffffffe000004358 3 example_state))"
proof -
  have "peek64 (kmem example_state) (0xffffffe000004358 + 8 * of_nat j)
      \<noteq> flavor_and_count_tag example_layout" if "j < 2" for j
    using less_2_cases [OF that]
    by (auto simp add: example_state_def example_peeks example_tag)
  then have before: "\<forall>j<2. peek64 (kmem example_state) (0xffffffe000004358 + 8 * of_nat j)
      \<noteq> flavor_and_count_tag example_layout"
    by blast
  have hit: "peek64 (kmem example_state) (0xffffffe000004358 + 8 * of_nat 2)
      = flavor_and_count_tag example_layout"
    by (simp add: example_state_def example_peeks example_tag)
  have "0 + 2 < (1000::nat)" by simp
  from locate_trap_from_hit [OF this before hit, of bp]
  show ?thesis
    by (simp add: locate_trap_def Let_def example_layout_def del: probed_simps)
qed

section \<open>LOCATE_TRAP, DISPATCH_CALLBACK and PATCH_AND_RESUME\<close>

text \<open>
  Claim C4.  The trap scan starts at the outer snapshot's address plus
  \<^verbatim>\<open>sizeof(arm_context_t)\<close> and reads one 64-bit word every 8 bytes.  There is a
  \<open>k \<le> 1000\<close> such that none of the first \<open>k\<close> words is the tag and: either
  \<open>k < 1000\<close>, word \<open>k\<close> is the tag, the scan stops there after \<open>k + 1\<close> probes with
  \<^verbatim>\<open>found_it\<close> set, and the context at that word is inspected; or \<open>k = 1000\<close>, and the
  scan stops after 1000 probes without \<^verbatim>\<open>found_it\<close>.  The probes are reads of the words
  at \<open>start + 8 * j\<close> and change no memory.  Inspecting a context changes
  the trace only: when its \<^verbatim>\<open>pc\<close> is not the expected breakpoint, one more message is
  printed.  The expected breakpoint address has no influence on the address the scan
  returns nor on kernel memory, and whatever the scan returned,
  \<^verbatim>\<open>handle_kernel_bp_hits\<close> goes on to the callback and the patch with that address.
\<close>

theorem locate_trap_scans_from_outer_snapshot_end:
  "let start = L + of_nat (ctx_size lay); tag = flavor_and_count_tag lay in
     (\<exists>k\<le>1000.
        (\<forall>j<k. peek64 (kmem s) (start + 8 * of_nat j) \<noteq> tag) \<and>
        (k < 1000 \<longrightarrow>
           peek64 (kmem s) (start + 8 * of_nat k) = tag \<and>
           locate_trap lay bp L s =
             ((True, start + 8 * of_nat k),
              inspect_bp_context lay bp (start + 8 * of_nat k) (probed start (Suc k) s))) \<and>
        (k = 1000 \<longrightarrow>
           locate_trap lay bp L s =
             ((False, start + 8 * of_nat k),
              printf Msg_unable_to_find_bp_hitting_state (probed start 1000 s)))) \<and>
     (\<forall>b s0. inspect_bp_context lay bp b s0 =
        s0\<lparr>trace :=
            (if ss64_pc lay (kread (kmem s0) b (ctx_size lay)) \<noteq> bp
             then [Ev_printf (Msg_unexpected_breakpoint
                     (ss64_pc lay (kread (kmem s0) b (ctx_size lay))))]
             else []) @
            rev (map (\<lambda>k. Ev_printf (Msg_hex16 (get64 (kread (kmem s0) b (ctx_size lay)) (8 * k))))
                   [0..<40]) @
            Ev_kmemcpy_from_kernel b (ctx_size lay) # trace s0\<rparr>) \<and>
     (\<forall>n. kmem (probed start n s) = kmem s \<and>
          trace (probed start n s) =
            rev (map (\<lambda>j. Ev_rk64 (start + 8 * of_nat j)) [0..<n]) @ trace s) \<and>
     (\<forall>bp'. fst (locate_trap lay bp' L s) = fst (locate_trap lay bp L s) \<and>
            kmem (snd (locate_trap lay bp' L s)) = kmem s) \<and>
     handle_bp_hit env lay a L s =
       dispatch_and_patch env lay a L (snd (fst (locate_trap lay (breakpoint a) L s)))
         (snd (locate_trap lay (breakpoint a) L s))"
  unfolding Let_def
  using locate_trap_cases [of s L lay bp] inspect_bp_context_state [of lay bp]
    locate_trap_same_address [of lay _ L s bp]
    probed_trace [of "L + of_nat (ctx_size lay)" _ s]
  by (simp add: handle_bp_hit_def case_prod_beta del: probed_simps)

theorem locate_trap_scans_from_outer_snapshot_end_witness:
  "fst (locate_trap example_layout 0xfffffff007430008 0xffffffe000004008 example_state)
     = (True, 0xffffffe000004368) \<and>
   hd (trace (snd (locate_trap example_layout 0xfffffff007430008 0xffffffe000004008
        example_state)))
     = Ev_printf (Msg_unexpected_breakpoint 0xfffffff007430000) \<and>
   kmem (snd (locate_trap example_layout 0xfffffff007430008 0xffffffe000004008 example_state))
     = example_kmem"
proof -
  let ?bp = "0xfffffff007430008 :: u64"
  let ?L = "0xffffffe000004008 :: u64"
  let ?start = "0xffffffe000004358 :: u64"
  note scan = locate_trap_scans_from_outer_snapshot_end
    [where lay = example_layout and bp = ?bp and L = ?L and s = example_state
       and env = example_env and a = example_args, unfolded Let_def]
  have start: "?L + of_nat (ctx_size example_layout) = ?start"
    by (simp add: example_layout_def)
  from scan obtain k where k: "k \<le> 1000"
      "\<forall>j<k. peek64 (kmem example_state) (?start + 8 * of_nat j)
          \<noteq> flavor_and_count_tag example_layout"
      "k < 1000 \<longrightarrow>
         peek64 (kmem example_state) (?start + 8 * of_nat k) = flavor_and_count_tag example_layout \<and>
         locate_trap example_layout ?bp ?L example_state =
           ((True, ?start + 8 * of_nat k),
            inspect_bp_context example_layout ?bp (?start + 8 * of_nat k)
              (probed ?start (Suc k) example_state))"
    unfolding start by blast
  from scan have logged: "inspect_bp_context example_layout ?bp b s0 =
        s0\<lparr>trace :=
            (if ss64_pc example_layout (kread (kmem s0) b (ctx_size example_layout)) \<noteq> ?bp
             then [Ev_printf (Msg_unexpected_breakpoint
                     (ss64_pc example_layout (kread (kmem s0) b (ctx_size example_layout))))]
             else []) @
            rev (map (\<lambda>k. Ev_printf (Msg_hex16
                   (get64 (kread (kmem s0) b (ctx_size example_layout)) (8 * k)))) [0..<40]) @
            Ev_kmemcpy_from_kernel b (ctx_size example_layout) # trace s0\<rparr>" for b s0
    by blast
  have "\<not> 2 < k"
    using k(2) [rule_format, of 2] by (auto simp add: example_state_def example_peeks example_tag)
  moreover have "k \<noteq> 0"
  proof
    assume "k = 0"
    with k(3) have "peek64 (kmem example_state) ?start = flavor_and_count_tag example_layout"
      by simp
    then show False by (simp add: example_state_def example_peeks example_tag)
  qed
  moreover have "k \<noteq> 1"
  proof
    assume "k = 1"
    with k(3) have "peek64 (kmem example_state) (?start + 8) = flavor_and_count_tag example_layout"
      by simp
    then show False by (simp add: example_state_def example_peeks example_tag)
  qed
  ultimately have "k = 2" by arith
  with k(3) have run: "locate_trap example_layout ?bp ?L example_state =
      ((True, 0xffffffe000004368),
       inspect_bp_context example_layout ?bp 0xffffffe000004368 (probed ?start 3 example_state))"
    by (simp del: probed_simps)
  have pc: "ss64_pc example_layout
      (kread example_kmem 0xffffffe000004368 (ctx_size example_layout)) = 0xfffffff007430000"
    by (simp add: ss64_kread example_layout_def example_peeks)
  show ?thesis
    unfolding run by (simp add: logged pc example_state_def del: probed_simps)
qed

text \<open>
  Claim C2.  Let the trap scan end at \<open>b\<close>, let the callback be given the copy of the
  \<^verbatim>\<open>arm_context_t\<close> at \<open>b\<close> and return the context \<open>bp_context\<close>.  After the write
  back and the patch, the memory at \<open>b\<close> holds exactly \<open>bp_context\<close>; the outer
  snapshot holds what it held when the callback returned, with its \<^verbatim>\<open>pc\<close> field replaced
  by \<^verbatim>\<open>KSYMBOL_SLEH_SYNC_EPILOG\<close>; and no byte outside the trap context and the outer
  \<^verbatim>\<open>pc\<close> field is changed.
\<close>

theorem patch_and_resume_writes_back_and_patches_outer_pc:
  assumes wf: "wf_layout lay"
    and located: "locate_trap lay (breakpoint a) L s = ((found_it, b), s0)"
    and copied: "copy_bp_context lay b s0 = (bp_read, s1)"
    and called: "callback a bp_read s1 = (bp_context, s2)"
    and typed: "length bp_context = ctx_size lay"
  shows "let s' = handle_bp_hit env lay a L s in
     bp_read = kread (kmem s) b (ctx_size lay) \<and>
     s' = patch_and_resume env lay a L b bp_context s2 \<and>
     kread (kmem s') b (ctx_size lay) = bp_context \<and>
     kread (kmem s') L (ctx_size lay) =
       set_ss64_pc lay (ksym env KSYMBOL_SLEH_SYNC_EPILOG) (kread (kmem s2) L (ctx_size lay)) \<and>
     ss64_pc lay (kread (kmem s') L (ctx_size lay)) = ksym env KSYMBOL_SLEH_SYNC_EPILOG \<and>
     (\<forall>x. ctx_size lay \<le> unat (x - b) \<and> 8 \<le> unat (x - (L + of_nat (off_pc lay))) \<longrightarrow>
          kmem s' x = kmem s2 x)"
proof -
  obtain k where k: "k \<le> 1000" "b = L + of_nat (ctx_size lay) + 8 * of_nat k"
    using locate_trap_address [of lay "breakpoint a" L s] located by auto
  have m0: "kmem s0 = kmem s"
    using locate_trap_proj(1) [of lay "breakpoint a" L s] located by simp
  have read: "bp_read = kread (kmem s) b (ctx_size lay)"
    using copy_bp_context_proj(1) [of lay b s0] copied m0 by simp
  have run: "handle_bp_hit env lay a L s = patch_and_resume env lay a L b bp_context s2"
    using located copied called by (simp add: handle_bp_hit_def dispatch_and_patch_def)
  note mem = patch_and_resume_memory [OF wf k(2) k(1) typed, where env = env and a = a and s = s2]
  have ctx: "is_context lay (kread (kmem s2) L (ctx_size lay))"
    using wf by (simp add: is_context_def)
  show ?thesis
    unfolding Let_def run using read mem ctx by simp
qed


theorem patch_and_resume_writes_back_and_patches_outer_pc_witness:
  "wf_layout example_layout \<and>
   (let s' = handle_bp_hit example_env example_layout example_args 0xffffffe000004008
               example_state
    in ss64_pc example_layout (kread (kmem s') 0xffffffe000004368 848) = 0xfffffff007430004 \<and>
       ss64_pc example_layout (kread (kmem s') 0xffffffe000004008 848) = 0xfffffff0071de074)"
proof -
  let ?L = "0xffffffe000004008 :: u64"
  let ?b = "0xffffffe000004368 :: u64"
  let ?s0 = "inspect_bp_context example_layout (breakpoint example_args) ?b
      (probed 0xffffffe000004358 3 example_state)"
  let ?read = "fst (copy_bp_context example_layout ?b ?s0)"
  let ?s1 = "snd (copy_bp_context example_layout ?b ?s0)"
  let ?ctx = "fst (callback example_args ?read ?s1)"
  let ?s2 = "snd (callback example_args ?read ?s1)"
  have wf: "wf_layout example_layout" by simp
  have located: "locate_trap example_layout (breakpoint example_args) ?L example_state
      = ((True, ?b), ?s0)"
    by (rule example_locate_trap)
  have copied: "copy_bp_context example_layout ?b ?s0 = (?read, ?s1)"
    by (simp only: prod.collapse)
  have called: "callback example_args ?read ?s1 = (?ctx, ?s2)"
    by (simp only: prod.collapse)
  have read_ctx: "is_context example_layout ?read"
    by (simp add: is_context_def)
  have handler: "callback example_args = sys_write_breakpoint_handler example_layout 0x100404000"
    by (simp add: example_args_def)
  have typed: "length ?ctx = ctx_size example_layout"
    unfolding handler
    by (rule is_context_length, rule sys_write_breakpoint_handler_context(1), rule read_ctx)
  note patched = patch_and_resume_writes_back_and_patches_outer_pc
    [OF wf located copied called typed, of example_env, unfolded Let_def]
  have size: "ctx_size example_layout = 848" by (simp add: example_layout_def)
  from patched have written: "kread (kmem (handle_bp_hit example_env example_layout example_args
      ?L example_state)) ?b (ctx_size example_layout) = ?ctx"
    by blast
  from patched have epilog: "ss64_pc example_layout (kread (kmem (handle_bp_hit example_env
      example_layout example_args ?L example_state)) ?L (ctx_size example_layout))
      = ksym example_env KSYMBOL_SLEH_SYNC_EPILOG"
    by blast
  have "ss64_pc example_layout
      (kread (kmem (handle_bp_hit example_env example_layout example_args ?L example_state))
         ?b 848) = ss64_pc example_layout ?ctx"
    using written by (simp add: size)
  also have "\<dots> = ss64_pc example_layout ?read + 4"
    unfolding handler by (rule sys_write_breakpoint_handler_context(2), rule read_ctx)
  also have "ss64_pc example_layout ?read = 0xfffffff007430000"
    by (simp add: ss64_kread example_layout_def example_state_def example_peeks
        del: probed_simps)
  finally have trap: "ss64_pc example_layout
      (kread (kmem (handle_bp_hit example_env example_layout example_args ?L example_state))
         ?b 848) = 0xfffffff007430004"
    by simp
  have outer: "ss64_pc example_layout
      (kread (kmem (handle_bp_hit example_env example_layout example_args ?L example_state))
         ?L 848) = 0xfffffff0071de074"
    using epilog by (simp add: size example_env_def)
  from wf trap outer show ?thesis by (simp add: Let_def)
qed

text \<open>
  Claim C10.  When none of the 1000 words probed by the trap scan is the tag, the scan
  ends without \<^verbatim>\<open>found_it\<close> at the address past the last probe; the
  \<^verbatim>\<open>sizeof(arm_context_t)\<close> bytes at that address are copied and given to the callback,
  what the callback returns is written back there, and the outer snapshot's \<^verbatim>\<open>pc\<close> is
  patched: the run is that of \<^verbatim>\<open>PATCH_AND_RESUME\<close> on the callback's result.
\<close>

theorem trap_scan_failure_still_dispatches_and_patches:
  assumes "\<forall>j<1000. peek64 (kmem s) (L + of_nat (ctx_size lay) + 8 * of_nat j)
      \<noteq> flavor_and_count_tag lay"
  shows "let b = L + of_nat (ctx_size lay) + 8 * 1000;
             s0 = printf Msg_unable_to_find_bp_hitting_state
                    (probed (L + of_nat (ctx_size lay)) 1000 s);
             bytes = kread (kmem s) b (ctx_size lay);
             (bytes', s2) = callback a bytes (snd (copy_bp_context lay b s0))
         in locate_trap lay (breakpoint a) L s = ((False, b), s0) \<and>
            fst (copy_bp_context lay b s0) = bytes \<and>
            handle_bp_hit env lay a L s = patch_and_resume env lay a L b bytes' s2 \<and>
            kmem (handle_bp_hit env lay a L s) =
              kwrite (kwrite (kmem s2) b bytes') (L + of_nat (off_pc lay))
                (le_bytes 8 (ksym env KSYMBOL_SLEH_SYNC_EPILOG))"
proof -
  have "0 + 1000 = (1000::nat)" by simp
  from locate_trap_from_miss [OF this assms, of "breakpoint a"]
  have located: "locate_trap lay (breakpoint a) L s =
      ((False, L + of_nat (ctx_size lay) + 8 * 1000),
       printf Msg_unable_to_find_bp_hitting_state (probed (L + of_nat (ctx_size lay)) 1000 s))"
    by (simp add: locate_trap_def Let_def del: probed_simps)
  show ?thesis
    unfolding Let_def located handle_bp_hit_def dispatch_and_patch_def
    by (simp add: case_prod_beta del: probed_simps)
qed


theorem trap_scan_failure_still_dispatches_and_patches_witness:
  "fst (locate_trap example_layout (breakpoint example_args) 0xffffffe000004008 blank_state)
     = (False, 0xffffffe000006298) \<and>
   ss64_pc example_layout
     (kread (kmem (handle_bp_hit example_env example_layout example_args 0xffffffe000004008
        blank_state)) 0xffffffe000006298 848) = 4 \<and>
   ss64_pc example_layout
     (kread (kmem (handle_bp_hit example_env example_layout example_args 0xffffffe000004008
        blank_state)) 0xffffffe000004008 848) = 0xfffffff0071de074"
proof -
  let ?L = "0xffffffe000004008 :: u64"
  let ?b = "0xffffffe000006298 :: u64"
  let ?s0 = "printf Msg_unable_to_find_bp_hitting_state
      (probed (?L + of_nat (ctx_size example_layout)) 1000 blank_state)"
  let ?read = "kread (kmem blank_state) ?b (ctx_size example_layout)"
  let ?s1 = "snd (copy_bp_context example_layout ?b ?s0)"
  let ?ctx = "fst (callback example_args ?read ?s1)"
  let ?s2 = "snd (callback example_args ?read ?s1)"
  have wf: "wf_layout example_layout" by simp
  have size: "ctx_size example_layout = 848" by (simp add: example_layout_def)
  have b: "?L + of_nat (ctx_size example_layout) + 8 * 1000 = ?b"
    by (simp add: size)
  have none: "\<forall>j<1000. peek64 (kmem blank_state)
      (?L + of_nat (ctx_size example_layout) + 8 * of_nat j) \<noteq> flavor_and_count_tag example_layout"
    by (simp add: blank_state_def example_tag)
  note failed = trap_scan_failure_still_dispatches_and_patches
    [OF none, where env = example_env and a = example_args,
     unfolded Let_def case_prod_beta b]
  from failed have located: "locate_trap example_layout (breakpoint example_args) ?L blank_state
      = ((False, ?b), ?s0)"
    by blast
  from failed have run: "handle_bp_hit example_env example_layout example_args ?L blank_state
      = patch_and_resume example_env example_layout example_args ?L ?b ?ctx ?s2"
    by blast
  have handler: "callback example_args = sys_write_breakpoint_handler example_layout 0x100404000"
    by (simp add: example_args_def)
  have read_ctx: "is_context example_layout ?read"
    by (simp add: is_context_def)
  have typed: "length ?ctx = ctx_size example_layout"
    unfolding handler
    by (rule is_context_length, rule sys_write_breakpoint_handler_context(1), rule read_ctx)
  have at: "?b = ?L + of_nat (ctx_size example_layout) + 8 * of_nat 1000"
    by (simp add: size)
  have k: "(1000::nat) \<le> 1000" by simp
  note mem = patch_and_resume_memory [OF wf at k typed, where env = example_env
      and a = example_args and s = ?s2]
  have "ss64_pc example_layout (kread (kmem (handle_bp_hit example_env example_layout
      example_args ?L blank_state)) ?b (ctx_size example_layout)) = ss64_pc example_layout ?ctx"
    unfolding run mem(1) ..
  also have "\<dots> = ss64_pc example_layout ?read + 4"
    unfolding handler by (rule sys_write_breakpoint_handler_context(2), rule read_ctx)
  also have "ss64_pc example_layout ?read = 0"
    by (simp add: ss64_kread example_layout_def blank_state_def)
  finally have trap: "ss64_pc example_layout (kread (kmem (handle_bp_hit example_env
      example_layout example_args ?L blank_state)) ?b 848) = 4"
    by (simp add: size)
  have "is_context example_layout (kread (kmem ?s2) ?L (ctx_size example_layout))"
    by (simp add: is_context_def)
  then have outer: "ss64_pc example_layout (kread (kmem (handle_bp_hit example_env
      example_layout example_args ?L blank_state)) ?L 848) = 0xfffffff0071de074"
    unfolding run using mem(2) by (simp add: size example_env_def)
  from located trap outer show ?thesis by simp
qed


section \<open>WAIT_SPIN: the completion flag and the poll that finds nothing\<close>

text \<open>
  Claim C8.  When \<^verbatim>\<open>syscall_complete\<close> is set at the start of a pass through the
  polling loop, that pass ends in \<^verbatim>\<open>return\<close> with the state it started from: the
  monitor adds no event to the trace, so it reads no kernel memory and scans nothing, and
  \<^verbatim>\<open>handle_kernel_bp_hits\<close> returns in that pass whatever would have followed.
\<close>

theorem completion_flag_returns_before_any_read:
  assumes "syscall_complete (other s) \<noteq> 0"
  shows "wait_spin_poll env lay a thread_t_addr (other s) = (Poll_return, other s) \<and>
         handle_kernel_bp_hits_loop env lay a thread_t_addr (other # others) s = Some (other s)"
  using assms by (simp add: wait_spin_poll_def)

theorem completion_flag_returns_before_any_read_witness:
  "syscall_complete (example_state\<lparr>syscall_complete := 1\<rparr>) \<noteq> 0 \<and>
   handle_kernel_bp_hits_loop example_env example_layout example_args 0xffffffe000200000
     [\<lambda>s. s\<lparr>syscall_complete := 1\<rparr>, \<lambda>s. s] example_state
     = Some (example_state\<lparr>syscall_complete := 1\<rparr>) \<and>
   trace (example_state\<lparr>syscall_complete := 1\<rparr>) = []"
proof -
  note returns = completion_flag_returns_before_any_read
    [where other = "\<lambda>s. s\<lparr>syscall_complete := 1\<rparr>" and s = example_state
       and env = example_env and lay = example_layout and a = example_args
       and thread_t_addr = "0xffffffe000200000" and others = "[\<lambda>s. s]"]
  have flag: "syscall_complete (example_state\<lparr>syscall_complete := 1\<rparr>) \<noteq> 0"
    by simp
  from returns [OF flag] flag show ?thesis
    by (simp add: example_state_def)
qed

lemma scan_stack_none:
  assumes "\<forall>i<128. \<not> spin_snapshot_at lay beyond spin_pc stack i"
  shows "scan_stack lay beyond spin_pc sp stack = (False, 0, 128)"
proof -
  obtain f l n where run: "scan_stack_from lay beyond spin_pc sp stack 0 = (f, l, n)"
    by (cases "scan_stack_from lay beyond spin_pc sp stack 0") auto
  from scan_stack_from_spec [OF run] assms have "\<not> f \<and> l = 0 \<and> n = 128"
    by auto
  with run show ?thesis by (simp add: scan_stack_def)
qed

lemma wait_spin_poll_gives_up:
  assumes flag: "syscall_complete s = 0"
    and kstackptr: "kstackptr = peek64 (kmem s) (t + koffset env KSTRUCT_OFFSET_THREAD_KSTACKPTR)"
    and sp: "sp = ss64_sp lay (kread (kmem s) kstackptr (ctx_size lay))" "sp \<noteq> 0"
    and none: "\<forall>i<128. \<not> spin_snapshot_at lay (frame_after_stack a) (looper_pc a)
        (kread (kmem s) sp (128 * 8)) i"
  shows "wait_spin_poll env lay a t s =
     (Poll_return,
      sleep 1 (printf Msg_unable_to_find_tick_state_trying_again
        (emit (Ev_kmemcpy_from_kernel sp (128 * 8)) (printf (Msg_sp sp)
          (emit (Ev_kmemcpy_from_kernel kstackptr (ctx_size lay)) (printf (Msg_kstackptr kstackptr)
            (emit (Ev_rk64 (t + koffset env KSTRUCT_OFFSET_THREAD_KSTACKPTR)) s)))))))"
  using flag sp(2) scan_stack_none [OF none, of sp]
  unfolding kstackptr sp(1)
  by (simp add: wait_spin_poll_def Let_def case_prod_beta)

lemma unat_add_of_nat64:
  assumes "unat (d :: u64) + n < 2 ^ 64"
  shows "unat (d + of_nat n) = unat d + n"
proof -
  from assms have n: "n < 2 ^ 64" by simp
  have "unat (d + of_nat n) = (unat d + unat (of_nat n :: u64)) mod 2 ^ 64"
    by (simp add: unat_word_ariths)
  with assms n show ?thesis by (simp add: unat_of_nat64)
qed

lemma kread_kwrite_far:
  assumes "unat (b - a) + n \<le> 2 ^ 64" "length bs \<le> unat (b - a)"
  shows "kread (kwrite m a bs) b n = kread m b n"
proof (rule kread_kwrite_disjoint)
  fix k assume k: "k < n"
  have eq: "b + of_nat k - a = (b - a) + of_nat k" by simp
  have u: "unat ((b - a) + of_nat k) = unat (b - a) + k"
    using assms(1) k by (intro unat_add_of_nat64) simp
  show "length bs \<le> unat (b + of_nat k - a)"
    unfolding eq u using assms(2) by simp
qed


lemma spinless_facts:
  "peek64 spinless_kmem 0xffffffe000200450 = 0xffffffe000008000"
  "peek64 spinless_kmem 0xffffffe000008100 = 0xffffffe000004000"
  "kread spinless_kmem 0xffffffe000004000 1024 = kread (\<lambda>_. 0) 0xffffffe000004000 1024"
proof -
  show "peek64 spinless_kmem 0xffffffe000200450 = 0xffffffe000008000"
    by (simp add: peek64_def kread_def upt8 spinless_kmem_def kwrite_def le_bytes8_unfold
      unsigned_minus_1_eq_mask mask_eq_exp_minus_1)
  show "peek64 spinless_kmem 0xffffffe000008100 = 0xffffffe000004000"
    by (simp add: peek64_def kread_def upt8 spinless_kmem_def kwrite_def le_bytes8_unfold
      unsigned_minus_1_eq_mask mask_eq_exp_minus_1)
  show "kread spinless_kmem 0xffffffe000004000 1024 = kread (\<lambda>_. 0) 0xffffffe000004000 1024"
    unfolding spinless_kmem_def
    by (simp add: kread_kwrite_far)
qed

lemma spinless_sp:
  "ss64_sp example_layout (kread spinless_kmem 0xffffffe000008000 (ctx_size example_layout))
     = 0xffffffe000004000"
proof -
  have "ss64_sp example_layout (kread spinless_kmem 0xffffffe000008000 (ctx_size example_layout))
      = peek64 spinless_kmem (0xffffffe000008000 + of_nat (off_sp example_layout))"
    by (rule ss64_kread(2)) (simp add: example_layout_def)
  also have "\<dots> = 0xffffffe000004000"
    by (simp add: example_layout_def spinless_facts(2))
  finally show ?thesis .
qed

lemma spinless_window:
  "\<not> spin_snapshot_at example_layout beyond spin_pc
       (kread spinless_kmem 0xffffffe000004000 1024) i"
proof -
  have "stack_word (kread (\<lambda>_. 0) 0xffffffe000004000 1024) i = 0"
  proof (cases "i < 128")
    case True
    then show ?thesis by (subst stack_word_kread) simp_all
  next
    case False
    then have "drop (8 * i) (kread (\<lambda>_. 0) 0xffffffe000004000 1024) = []"
      by simp
    then show ?thesis
      by (simp add: stack_word_def get64_def get_bytes_def)
  qed
  then show ?thesis
    unfolding spin_snapshot_at_def spinless_facts(3) by (simp add: example_tag)
qed

lemma handle_kernel_bp_hits_start:
  "handle_kernel_bp_hits env lay a others s =
     handle_kernel_bp_hits_loop env lay a
       (peek64 (kmem s) (find_port_address env (target_thread_port a)
          + koffset env KSTRUCT_OFFSET_IPC_PORT_IP_KOBJECT))
       others
       (emit (Ev_rk64 (find_port_address env (target_thread_port a)
          + koffset env KSTRUCT_OFFSET_IPC_PORT_IP_KOBJECT)) s)"
  by (simp add: handle_kernel_bp_hits_def Let_def case_prod_beta)

lemma spinless_thread:
  "peek64 spinless_kmem 0xffffffe000300068 = 0xffffffe000200000"
  by (simp add: peek64_def kread_def upt8 spinless_kmem_def kwrite_def le_bytes8_unfold
      unsigned_minus_1_eq_mask mask_eq_exp_minus_1)

text \<open>
  Claim C3 does not hold of the code.  On the state \<open>spinless_state\<close> the flag is not
  set, the saved stack pointer is not null and the 128-word window holds no spin
  snapshot; the poll prints that it will try again, sleeps one second and then ends in
  \<^verbatim>\<open>return\<close>: \<^verbatim>\<open>handle_kernel_bp_hits\<close> returns after this single poll (the window is
  copied once), with the flag still clear and two more polls' worth of environment
  unused.
\<close>

theorem wait_spin_not_found_returns_without_retry:
  "syscall_complete spinless_state = 0 \<and>
   (\<exists>s'. handle_kernel_bp_hits example_env example_layout example_args
            [\<lambda>s. s, \<lambda>s. s, \<lambda>s. s] spinless_state = Some s' \<and>
         syscall_complete s' = 0 \<and>
         take 2 (trace s') = [Ev_sleep 1, Ev_printf Msg_unable_to_find_tick_state_trying_again] \<and>
         length (filter (\<lambda>e. e = Ev_kmemcpy_from_kernel 0xffffffe000004000 1024) (trace s')) = 1)"
proof -
  let ?kobj = "0xffffffe000300068 :: u64"
  let ?s = "emit (Ev_rk64 ?kobj) spinless_state"
  have flag: "syscall_complete ?s = 0"
    by (simp add: spinless_state_def)
  have m: "kmem ?s = spinless_kmem"
    by (simp add: spinless_state_def)
  have k: "0xffffffe000008000 = peek64 (kmem ?s)
      (0xffffffe000200000 + koffset example_env KSTRUCT_OFFSET_THREAD_KSTACKPTR)"
    unfolding m by (simp add: spinless_facts(1) example_env_def)
  have sp: "0xffffffe000004000 = ss64_sp example_layout
      (kread (kmem ?s) 0xffffffe000008000 (ctx_size example_layout))"
    by (simp only: m spinless_sp)
  have nz: "(0xffffffe000004000 :: u64) \<noteq> 0" by simp
  have none: "\<forall>i<128. \<not> spin_snapshot_at example_layout (frame_after_stack example_args)
      (looper_pc example_args) (kread (kmem ?s) 0xffffffe000004000 (128 * 8)) i"
    unfolding m using spinless_window by simp
  note poll = wait_spin_poll_gives_up [OF flag k sp nz none]
  have start: "handle_kernel_bp_hits example_env example_layout example_args
      [\<lambda>s. s, \<lambda>s. s, \<lambda>s. s] spinless_state =
      handle_kernel_bp_hits_loop example_env example_layout example_args 0xffffffe000200000
        [\<lambda>s. s, \<lambda>s. s, \<lambda>s. s] ?s"
    unfolding handle_kernel_bp_hits_start
    by (simp add: example_env_def example_args_def spinless_state_def spinless_thread)
  have tr: "trace spinless_state = []"
    by (simp add: spinless_state_def)
  have flag0: "syscall_complete spinless_state = 0"
    by (simp add: spinless_state_def)
  show ?thesis
    unfolding start by (simp add: poll flag0 tr)
qed


section \<open>The argument loop of \<^verbatim>\<open>run_syscall_with_breakpoint\<close> and \<^verbatim>\<open>raw_syscall\<close>\<close>

lemma marshal_args_from_in_bounds:
  assumes "unat n_args \<le> length (arg sargs)" "i \<le> unat n_args"
  shows "marshal_args_from ap n_args i sargs =
     Inr (sargs\<lparr>arg := take i (arg sargs) @ map ap [i..<unat n_args]
                        @ drop (unat n_args) (arg sargs)\<rparr>)"
  using assms
proof (induction ap n_args i sargs rule: marshal_args_from.induct)
  case (1 ap n_args i sargs)
  show ?case
  proof (cases "i < unat n_args")
    case False
    with "1.prems" have "i = unat n_args" by simp
    then show ?thesis
      by (simp add: marshal_args_from.simps [of ap n_args "unat n_args"])
  next
    case True
    with "1.prems" have inb: "i < length (arg sargs)" by simp
    let ?sargs = "sargs\<lparr>arg := (arg sargs)[i := ap i]\<rparr>"
    have "marshal_args_from ap n_args (i + 1) ?sargs =
        Inr (?sargs\<lparr>arg := take (i + 1) (arg ?sargs) @ map ap [i + 1..<unat n_args]
                        @ drop (unat n_args) (arg ?sargs)\<rparr>)"
      using True inb "1.prems" by (intro "1.IH") simp_all
    moreover have "take (i + 1) ((arg sargs)[i := ap i]) = take i (arg sargs) @ [ap i]"
      using inb by (simp add: take_Suc_conv_app_nth)
    moreover have "drop (unat n_args) ((arg sargs)[i := ap i]) = drop (unat n_args) (arg sargs)"
      using True by simp
    moreover have "[i..<unat n_args] = i # [i + 1..<unat n_args]"
      using True by (simp add: upt_conv_Cons)
    ultimately show ?thesis
      using True inb by (simp add: marshal_args_from.simps [of ap n_args i])
  qed
qed

lemma marshal_args_in_bounds:
  assumes "unat n_args \<le> 8"
  shows "marshal_args syscall_number n_args ap =
     Inr \<lparr> number = syscall_number,
           arg = map ap [0..<unat n_args] @ replicate (8 - unat n_args) 0 \<rparr>"
  using marshal_args_from_in_bounds [of n_args "\<lparr> number = syscall_number, arg = replicate 8 0 \<rparr>" 0 ap]
    assms
  by (simp add: marshal_args_def)

lemma marshal_args_out_of_bounds:
  assumes "8 < unat n_args"
  shows "marshal_args syscall_number n_args ap = Inl (Array_index_out_of_bounds 8)"
proof -
  have "marshal_args_from ap n_args i sargs = Inl (Array_index_out_of_bounds 8)"
    if "length (arg sargs) = 8" "i \<le> 8" for i sargs
    using that assms
  proof (induction ap n_args i sargs rule: marshal_args_from.induct)
    case (1 ap n_args i sargs)
    show ?case
    proof (cases "i = 8")
      case True
      with "1.prems" show ?thesis
        by (simp add: marshal_args_from.simps [of ap n_args 8])
    next
      case False
      with "1.prems" have lt: "i < 8" "i < unat n_args" "i < length (arg sargs)" by simp_all
      have "marshal_args_from ap n_args (i + 1) (sargs\<lparr>arg := (arg sargs)[i := ap i]\<rparr>)
          = Inl (Array_index_out_of_bounds 8)"
        using lt "1.prems" by (intro "1.IH") simp_all
      with lt show ?thesis
        by (simp add: marshal_args_from.simps [of ap n_args i])
    qed
  qed
  then show ?thesis by (simp add: marshal_args_def)
qed

text \<open>
  Claim C9.  When \<^verbatim>\<open>n_args\<close> is at most 8, the argument loop of both functions ends
  without a store outside \<^verbatim>\<open>sargs.arg\<close>: the request has the given operation number,
  its first \<^verbatim>\<open>n_args\<close> slots hold the variable arguments in order and the other slots
  keep the zero they were initialised with.  That request is the one both functions
  hand to \<^verbatim>\<open>do_syscall_with_pstate_d_unmasked\<close>.
\<close>

theorem marshalling_stays_in_bounds:
  assumes "unat n_args \<le> 8"
  shows "let request = \<lparr> number = syscall_number,
                         arg = map ap [0..<unat n_args] @ replicate (8 - unat n_args) 0 \<rparr>
         in marshal_args syscall_number n_args ap = Inr request \<and>
            length (arg request) = 8 \<and>
            (\<forall>i<8. arg request ! i = (if i < unat n_args then ap i else 0)) \<and>
            (\<exists>s'. run_syscall_with_breakpoint env lay bp_address syscall_number n_args ap s
                    = Inr (request, s')) \<and>
            raw_syscall env lay syscall_number n_args ap s =
              Inr (request, run_syscall env lay request (snd (pin_current_thread env s)))"
proof -
  let ?request = "\<lparr> number = syscall_number,
      arg = map ap [0..<unat n_args] @ replicate (8 - unat n_args) 0 \<rparr>"
  note m = marshal_args_in_bounds [OF assms, of syscall_number ap]
  have len: "length (arg ?request) = 8" using assms by simp
  have nth: "arg ?request ! i = (if i < unat n_args then ap i else 0)" if "i < 8" for i
    using that assms by (simp add: nth_append)
  have bp: "\<exists>s'. run_syscall_with_breakpoint env lay bp_address syscall_number n_args ap s
      = Inr (?request, s')"
    by (simp add: run_syscall_with_breakpoint_def m Let_def case_prod_beta)
  have raw: "raw_syscall env lay syscall_number n_args ap s =
      Inr (?request, run_syscall env lay ?request (snd (pin_current_thread env s)))"
    by (simp add: raw_syscall_def m Let_def case_prod_beta)
  from m len nth bp raw show ?thesis
    unfolding Let_def by blast
qed

theorem marshalling_stays_in_bounds_witness:
  "unat (3 :: u32) \<le> 8 \<and>
   marshal_args 4 3 (va_slots [1, 0x100403f00, 11] (\<lambda>_. 0xdeadbeef)) = Inr example_request \<and>
   fst (projr (raw_syscall example_env example_layout 4 3
     (va_slots [1, 0x100403f00, 11] (\<lambda>_. 0xdeadbeef)) example_state)) = example_request \<and>
   fst (projr (test_kdbg example_env example_layout 0x100403f00 (\<lambda>_. 0xdeadbeef)
     example_state)) = example_request"
proof -
  have n: "unat (3 :: u32) \<le> 8" by simp
  let ?ap = "va_slots [1, 0x100403f00, 11] (\<lambda>_. 0xdeadbeef)"
  note m = marshalling_stays_in_bounds [OF n, where syscall_number = 4
      and ap = ?ap and env = example_env and lay = example_layout
      and s = example_state and bp_address = "ksym example_env KSYMBOL_WRITE_SYSCALL_ENTRYPOINT",
      unfolded Let_def]
  have req: "\<lparr> number = 4, arg = map ?ap [0..<unat (3 :: u32)]
      @ replicate (8 - unat (3 :: u32)) 0 \<rparr> = example_request"
  proof -
    have l3: "[0..<3] = [0, 1, 2 :: nat]" by (simp add: upt_rec)
    have r5: "replicate 5 (0 :: u64) = [0, 0, 0, 0, 0]" by (simp add: numeral_eq_Suc)
    show ?thesis by (simp add: example_request_def l3 r5 va_slots_def)
  qed
  from m obtain s' where "run_syscall_with_breakpoint example_env example_layout
      (ksym example_env KSYMBOL_WRITE_SYSCALL_ENTRYPOINT) 4 3 ?ap example_state
      = Inr (example_request, s')"
    unfolding req by blast
  then have t: "fst (projr (test_kdbg example_env example_layout 0x100403f00
      (\<lambda>_. 0xdeadbeef) example_state)) = example_request"
    by (simp add: test_kdbg_def)
  from m n t show ?thesis
    unfolding req by simp
qed

section \<open>Arming the breakpoint\<close>












end
